theory Spec2Isabelle
  imports Complex_Main "HOL-Library.Sublist" "HOL-Library.Log_Nat"
begin

section \<open>JavaScript values used by the detection endpoint\<close>

text \<open>
  The line numbers quoted below are those of src/unnamed/part_002, which holds script.js
  followed by api/detect.js (the handler starts at line 304); result.js is
  src/unnamed/part_001.

  Strings are strings of bytes (for a header, its Latin-1 code units; elsewhere UTF-8).
  \<open>toLowerCase\<close> acts on the ASCII letters: no string with a byte outside ASCII is
  lower-cased to an ASCII string by JavaScript either, so a comparison of the result with
  an ASCII word is the same. Times are milliseconds since the epoch (\<open>Date.now()\<close>);
  \<open>toISOString\<close> is left out, a date is carried as its millisecond value.
\<close>

definition lower_char :: "char \<Rightarrow> char" where
  "lower_char c =
     (let n = (of_char c :: nat) in if 65 \<le> n \<and> n \<le> 90 then char_of (n + 32) else c)"

definition toLowerCase :: "string \<Rightarrow> string" where
  "toLowerCase s = map lower_char s"

definition str_includes :: "string \<Rightarrow> string \<Rightarrow> bool" where
  \<comment> \<open>\<open>s.includes(t)\<close>: \<open>t\<close> occurs in \<open>s\<close> as a contiguous substring.\<close>
  "str_includes s t = sublist t s"

definition is_space :: "char \<Rightarrow> bool" where
  \<comment> \<open>the white space and line terminators of \<open>String.prototype.trim\<close> below U+0100:
      tab, line feed, vertical tab, form feed, carriage return, space, no-break space\<close>
  "is_space c = ((of_char c :: nat) \<in> {9, 10, 11, 12, 13, 32, 160})"

definition trim :: "string \<Rightarrow> string" where
  "trim s = rev (dropWhile is_space (rev (dropWhile is_space s)))"

definition split_first :: "char \<Rightarrow> string \<Rightarrow> string" where
  \<comment> \<open>\<open>s.split(c)[0]\<close>\<close>
  "split_first c s = takeWhile (\<lambda>d. d \<noteq> c) s"

definition truthy :: "string option \<Rightarrow> bool" where
  \<comment> \<open>a string-or-undefined value is truthy when it is a non-empty string\<close>
  "truthy v = (case v of None \<Rightarrow> False | Some s \<Rightarrow> s \<noteq> [])"

definition js_or :: "string option \<Rightarrow> string option \<Rightarrow> string option" where
  \<comment> \<open>\<open>a || b\<close> on string-or-undefined values\<close>
  "js_or a b = (if truthy a then a else b)"

definition str_of :: "string option \<Rightarrow> string" where
  \<comment> \<open>the string of a value known to be one\<close>
  "str_of v = (case v of None \<Rightarrow> [] | Some s \<Rightarrow> s)"

fun show_nat :: "nat \<Rightarrow> string" where
  "show_nat n =
     (if n < 10 then [char_of (48 + n)] else show_nat (n div 10) @ [char_of (48 + n mod 10)])"

section \<open>Numbers: IEEE 754 doubles\<close>

text \<open>
  A JavaScript number is a double. A finite double is carried as the rational it denotes.
  \<open>fl\<close> rounds an exact rational result to the nearest double, ties to even, with gradual
  underflow (53 significant bits, least exponent \<open>-1074\<close>); it is \<open>None\<close> when the result
  overflows to an infinity. Every arithmetic operation of the source is the exact operation
  followed by \<open>fl\<close>, as IEEE 754 prescribes.

  A \<open>rat option\<close> is a number that may fail to be finite: \<open>None\<close> stands for \<open>undefined\<close>
  (which arithmetic turns into \<open>NaN\<close>), for \<open>NaN\<close> and for an infinity. Where the source
  compares such a value, the model says which of them it is. The sign of a zero is not
  modelled: no operation below depends on it. A number read from JSON is a finite double.
\<close>

definition pow2 :: "int \<Rightarrow> rat" where
  "pow2 k = (if 0 \<le> k then 2 ^ nat k else 1 / 2 ^ nat (- k))"

definition ilog2 :: "rat \<Rightarrow> int" where
  \<comment> \<open>for \<open>a > 0\<close>, the exponent \<open>e\<close> with \<open>pow2 e \<le> a < pow2 (e + 1)\<close>\<close>
  "ilog2 a =
     (let (p, q) = quotient_of a;
          k = bitlen p - bitlen q
      in if pow2 k \<le> a then k else k - 1)"

definition round_half_even :: "rat \<Rightarrow> int" where
  "round_half_even m =
     (let f = \<lfloor>m\<rfloor>; d = m - of_int f
      in if d < 1 / 2 then f else if 1 / 2 < d then f + 1 else if even f then f else f + 1)"

definition fl :: "rat \<Rightarrow> rat option" where
  "fl x =
     (if x = 0 then Some 0
      else let a = \<bar>x\<bar>;
               q = max (ilog2 a - 52) (- 1074);
               r = of_int (round_half_even (a / pow2 q)) * pow2 q
           in if 1024 \<le> ilog2 r then None else Some (if x < 0 then - r else r))"

definition dbl :: "rat \<Rightarrow> rat" where
  \<comment> \<open>the double that a decimal literal within range denotes\<close>
  "dbl x = (case fl x of Some v \<Rightarrow> v | None \<Rightarrow> 0)"

definition num_sub :: "rat option \<Rightarrow> rat option \<Rightarrow> rat option" where
  "num_sub a b = (case (a, b) of (Some u, Some v) \<Rightarrow> fl (u - v) | _ \<Rightarrow> None)"

definition num_mul :: "rat option \<Rightarrow> rat option \<Rightarrow> rat option" where
  "num_mul a b = (case (a, b) of (Some u, Some v) \<Rightarrow> fl (u * v) | _ \<Rightarrow> None)"

definition num_div :: "rat option \<Rightarrow> rat \<Rightarrow> rat option" where
  \<comment> \<open>the divisor is a finite double; dividing by zero gives an infinity or \<open>NaN\<close>\<close>
  "num_div a v = (case a of Some u \<Rightarrow> if v = 0 then None else fl (u / v) | None \<Rightarrow> None)"

definition Math_round :: "rat \<Rightarrow> int" where
  \<comment> \<open>\<open>Math.round\<close> of a finite double: the nearest integer, a tie goes up; the result is
      exact\<close>
  "Math_round v = \<lfloor>v + 1 / 2\<rfloor>"

definition percent :: "rat option \<Rightarrow> int option" where
  \<comment> \<open>\<open>Math.round(c * 100)\<close>; \<open>None\<close> when the product, hence the result, is \<open>NaN\<close> or an
      infinity, which JSON carries as \<open>null\<close>\<close>
  "percent c = map_option Math_round (num_mul c (Some 100))"

definition num_or_0 :: "rat option \<Rightarrow> rat" where
  \<comment> \<open>\<open>c || 0\<close> on a finite number or \<open>undefined\<close>\<close>
  "num_or_0 c = (case c of None \<Rightarrow> 0 | Some v \<Rightarrow> v)"

section \<open>Rate limiter (api/detect.js, checkRateLimit)\<close>

record userRecord =
  rec_count :: int
  rec_resetTime :: int

type_synonym rate_map = "string \<rightharpoonup> userRecord"

record rate_result =
  allowed :: bool
  remaining :: int
  resetTime :: "int option"

definition RATE_LIMIT_WINDOW :: int where
  "RATE_LIMIT_WINDOW = 60 * 60 * 1000"

definition MAX_REQUESTS :: int where
  "MAX_REQUESTS = 5"

definition checkRateLimit :: "int \<Rightarrow> string \<Rightarrow> rate_map \<Rightarrow> rate_result \<times> rate_map" where
  "checkRateLimit now ip m =
     (case m ip of
        None \<Rightarrow>
          (\<lparr>allowed = True, remaining = MAX_REQUESTS - 1, resetTime = None\<rparr>,
           m(ip \<mapsto> \<lparr>rec_count = 1, rec_resetTime = now + RATE_LIMIT_WINDOW\<rparr>))
      | Some userRecord \<Rightarrow>
          if now > rec_resetTime userRecord then
            (\<lparr>allowed = True, remaining = MAX_REQUESTS - 1, resetTime = None\<rparr>,
             m(ip \<mapsto> \<lparr>rec_count = 1, rec_resetTime = now + RATE_LIMIT_WINDOW\<rparr>))
          else if rec_count userRecord \<ge> MAX_REQUESTS then
            (\<lparr>allowed = False, remaining = 0, resetTime = Some (rec_resetTime userRecord)\<rparr>, m)
          else
            (\<lparr>allowed = True, remaining = MAX_REQUESTS - (rec_count userRecord + 1),
              resetTime = None\<rparr>,
             m(ip \<mapsto> userRecord\<lparr>rec_count := rec_count userRecord + 1\<rparr>)))"

text \<open>
  Successive calls for one client at the given times: the \<open>allowed\<close> flag of each call, in
  order, and the map after the last one.
\<close>

fun calls_allowed :: "string \<Rightarrow> int list \<Rightarrow> rate_map \<Rightarrow> bool list \<times> rate_map" where
  "calls_allowed ip [] m = ([], m)"
| "calls_allowed ip (t # ts) m =
     (let (r, m') = checkRateLimit t ip m; (bs, m'') = calls_allowed ip ts m'
      in (allowed r # bs, m''))"

section \<open>Requests, configuration and the outside world\<close>

record env =
  ALLOWED_ORIGIN :: "string option"
  RATE_LIMIT_PAUSED :: "string option"
  ROBOFLOW_MODEL1_URL :: "string option"
  ROBOFLOW_MODEL2_URL :: "string option"
  ROBOFLOW_API_KEY :: "string option"
  NODE_ENV :: "string option"

record request =
  req_method :: string
  req_origin :: "string option"
  x_forwarded_for :: "string option"
  x_real_ip :: "string option"
  remoteAddress :: "string option"

text \<open>
  A file as formidable hands it over, the value of \<open>files.image\<close> (absent, one file, or a
  non-empty array of files), and the parsed form: formidable writes every file part of the
  body into the temporary directory, whatever the name of its field, so the form also
  lists the uploaded files that \<open>files.image\<close> does not hold.
\<close>

record upload =
  filepath :: string
  mimetype :: "string option"
  size :: int

datatype files_image = Absent | Single upload | Multiple upload "upload list"

record form_files =
  image_field :: files_image
  other_uploads :: "upload list"

definition all_uploads :: "form_files \<Rightarrow> upload list" where
  "all_uploads files =
     (case image_field files of
        Absent \<Rightarrow> [] | Single f \<Rightarrow> [f] | Multiple f fs \<Rightarrow> f # fs) @ other_uploads files"

text \<open>
  One prediction of a model response and the response itself. A property that the JSON
  object does not have is \<open>None\<close>; a \<open>class\<close> that is there is a string and a \<open>confidence\<close>
  that is there is a finite double.
\<close>

record prediction =
  pred_class :: "string option"
  pred_className :: "string option"
  pred_confidence :: "rat option"
  pred_x :: "rat option"
  pred_y :: "rat option"
  pred_width :: "rat option"
  pred_height :: "rat option"

record image_info =
  info_width :: "rat option"
  info_height :: "rat option"

record response =
  predictions :: "prediction list option"
  resp_top :: "prediction option"
  resp_image :: "image_info option"

text \<open>
  What \<open>fetch\<close> does for one call: it rejects (also when the body is not JSON), it answers
  with a status outside 2xx and a text, or it answers with a JSON response.
\<close>

datatype api_outcome = Fetch_throws string | Not_ok nat string | Json response

text \<open>
  The reactions of the outside world to one request: the clock; the outcome of the
  multipart parse (a failure with its message and the paths it left behind, or the form);
  the outcome of reading the temporary file; the outcomes of the two model calls; and the
  order in which the engine leaves an array whose comparison function is not consistent
  (see \<open>sort_desc\<close>).
\<close>

record reactions =
  now_ms :: int
  parsed :: "(string \<times> string list) + form_files"
  file_base64 :: "string + string"
  model1_reply :: api_outcome
  model2_reply :: api_outcome
  timestamp_ms :: int
  engine_sort :: "prediction list \<Rightarrow> prediction list"

record imageMeta =
  meta_size :: int
  meta_type :: "string option"
  meta_width :: rat
  meta_height :: rat

record detection_log =
  log_timestamp :: int
  log_ip :: string
  log_model1Class :: string
  log_model1Confidence :: "int option"
  log_model2Class :: "string option"
  log_model2Confidence :: "int option"
  log_imageMeta :: imageMeta

text \<open>
  The state the handler acts on: the module-level rate-limit map, the temporary directory
  (the paths that exist, and those whose \<open>unlink\<close> fails), the URLs fetched so far and the
  audit-log writes dispatched so far.
\<close>

record world =
  rateLimitMap :: rate_map
  on_disk :: "string set"
  unlink_fails :: "string set"
  fetched :: "string list"
  logged :: "detection_log list"

section \<open>The response\<close>

record box =
  box_x :: "rat option"
  box_y :: "rat option"
  box_width :: "rat option"
  box_height :: "rat option"

text \<open>
  An element of \<open>allPredictions\<close> as the client reads it back from JSON: a property that
  the server did not write is \<open>None\<close>, and so is a confidence that JSON carries as \<open>null\<close>.
\<close>

record pred_view =
  view_class :: "string option"
  view_confidence :: "int option"
  view_boundingBox :: "box option"

record model1_result =
  m1_class :: string
  m1_confidence :: "int option"

record model2_result =
  m2_class :: "string option"
  m2_confidence :: "int option"
  m2_boundingBox :: box

record responseData =
  model1 :: model1_result
  model2 :: model2_result
  imageData :: string
  imageWidth :: rat
  imageHeight :: rat
  allPredictions :: "pred_view list"
  timestamp :: int

datatype body =
    No_body
  | Error_json string string
  | Rate_limit_json string string int
  | Rejected_json string string "string option" "rat option"
  | Server_error_json string string "string option"
  | Result_json responseData

datatype header_value = Text string | Num int | Iso_date int

record http_response =
  status :: nat
  headers :: "(string \<times> header_value) list"
  body :: body

definition respond :: "(string \<times> header_value) list \<Rightarrow> nat \<Rightarrow> body \<Rightarrow> http_response" where
  "respond hs st b = \<lparr>status = st, headers = hs, body = b\<rparr>"

fun error_type :: "body \<Rightarrow> string option" where
  "error_type No_body = None"
| "error_type (Error_json e t) = Some t"
| "error_type (Rate_limit_json e t r) = Some t"
| "error_type (Rejected_json e t d c) = Some t"
| "error_type (Server_error_json e t d) = Some t"
| "error_type (Result_json d) = None"

fun payload :: "body \<Rightarrow> responseData option" where
  "payload (Result_json d) = Some d"
| "payload _ = None"

section \<open>Helpers of api/detect.js\<close>

definition MAX_FILE_SIZE :: int where
  "MAX_FILE_SIZE = 10 * 1024 * 1024"

definition ALLOWED_TYPES :: "string list" where
  "ALLOWED_TYPES = [''image/jpeg'', ''image/jpg'', ''image/png'', ''image/webp'']"

definition getClientIP :: "request \<Rightarrow> string" where
  "getClientIP req =
     (case js_or (js_or (js_or (map_option (\<lambda>h. trim (split_first CHR '','' h))
                                   (x_forwarded_for req))
                               (x_real_ip req))
                        (remoteAddress req))
                 (Some ''unknown'') of
        Some ip \<Rightarrow> ip | None \<Rightarrow> ''unknown'')"

definition parseForm :: "reactions \<Rightarrow> world \<Rightarrow> (string + form_files) \<times> world" where
  \<comment> \<open>lines 252 to 265; the files that formidable wrote are on disk afterwards\<close>
  "parseForm rx w =
     (case parsed rx of
        Inl (message, left) \<Rightarrow> (Inl message, w\<lparr>on_disk := on_disk w \<union> set left\<rparr>)
      | Inr files \<Rightarrow>
          (Inr files, w\<lparr>on_disk := on_disk w \<union> set (map filepath (all_uploads files))\<rparr>))"

definition unlinkSync :: "string \<Rightarrow> world \<Rightarrow> string + world" where
  "unlinkSync p w =
     (if p \<notin> on_disk w then Inl ''ENOENT''
      else if p \<in> unlink_fails w then Inl ''EPERM''
      else Inr (w\<lparr>on_disk := on_disk w - {p}\<rparr>))"

definition deleteImageFile :: "string option \<Rightarrow> world \<Rightarrow> world" where
  \<comment> \<open>the \<open>catch\<close> of the function only logs a warning: a failed unlink leaves the world as it was\<close>
  "deleteImageFile filePath w =
     (case filePath of
        None \<Rightarrow> w
      | Some p \<Rightarrow>
          if p \<noteq> [] \<and> p \<in> on_disk w then
            (case unlinkSync p w of Inr w' \<Rightarrow> w' | Inl e \<Rightarrow> w)
          else w)"

definition callRoboflowAPI ::
  "string \<Rightarrow> string \<Rightarrow> string \<Rightarrow> api_outcome \<Rightarrow> world \<Rightarrow> (string + response) \<times> world" where
  "callRoboflowAPI base64Image apiUrl apiKey reply w =
     (let w' = w\<lparr>fetched := fetched w @ [apiUrl @ ''?api_key='' @ apiKey]\<rparr>
      in case reply of
           Fetch_throws msg \<Rightarrow> (Inl msg, w')
         | Not_ok st errorText \<Rightarrow>
             (Inl (''Roboflow API error ('' @ show_nat st @ ''): '' @ errorText), w')
         | Json r \<Rightarrow> (Inr r, w'))"

section \<open>The handler of api/detect.js\<close>

type_synonym res_headers = "(string \<times> header_value) list"

text \<open>The \<open>catch\<close> block of the handler (lines 527 to 555).\<close>

definition on_error ::
  "env \<Rightarrow> string option \<Rightarrow> string \<Rightarrow> res_headers \<Rightarrow> world \<Rightarrow> http_response \<times> world" where
  "on_error e uploadedFilePath message hs w =
     (let w' = (if truthy uploadedFilePath then deleteImageFile uploadedFilePath w else w)
      in if str_includes message ''maxFileSize'' then
           (respond hs 400 (Error_json ''File size exceeds maximum limit'' ''validation_error''),
            w')
         else if str_includes message ''Roboflow'' then
           (respond hs 502
              (Error_json ''AI model service is temporarily unavailable. Please try again.''
                 ''service_error''), w')
         else
           (respond hs 500
              (Server_error_json ''An unexpected error occurred during detection''
                 ''server_error''
                 (if NODE_ENV e = Some ''development'' then Some message else None)), w'))"

text \<open>
  Lines 455 to 525: the call of the disease model and the assembly of the response. The
  elements of \<open>allPredictions\<close> are built from \<open>class\<close> and \<open>confidence\<close> only.
\<close>

definition to_view :: "prediction \<Rightarrow> pred_view" where
  "to_view pred =
     \<lparr>view_class = pred_class pred,
      view_confidence = percent (pred_confidence pred),
      view_boundingBox = None\<rparr>"

definition or_640 :: "rat option \<Rightarrow> rat" where
  \<comment> \<open>\<open>v || 640\<close> on a number or \<open>undefined\<close>\<close>
  "or_640 v = (case v of None \<Rightarrow> 640 | Some n \<Rightarrow> if n \<noteq> 0 then n else 640)"

definition first_prediction :: "response \<Rightarrow> prediction option" where
  \<comment> \<open>\<open>response.predictions?.[0]\<close>\<close>
  "first_prediction r = (case predictions r of Some (p # ps) \<Rightarrow> Some p | _ \<Rightarrow> None)"

definition assemble ::
  "reactions \<Rightarrow> string \<Rightarrow> string \<Rightarrow> string \<Rightarrow> int option \<Rightarrow> response \<Rightarrow> prediction \<Rightarrow>
   responseData" where
  "assemble rx mime base64Image model1Class model1Confidence model2Response model2Prediction =
     (let model2Class = pred_class model2Prediction;
          model2Confidence = percent (pred_confidence model2Prediction);
          boundingBox = \<lparr>box_x = pred_x model2Prediction, box_y = pred_y model2Prediction,
                         box_width = pred_width model2Prediction,
                         box_height = pred_height model2Prediction\<rparr>;
          imageWidth = (case resp_image model2Response of
                          None \<Rightarrow> 640 | Some i \<Rightarrow> or_640 (info_width i));
          imageHeight = (case resp_image model2Response of
                           None \<Rightarrow> 640 | Some i \<Rightarrow> or_640 (info_height i));
          allPredictions = (case predictions model2Response of
                              None \<Rightarrow> [] | Some ps \<Rightarrow> map to_view ps)
      in \<lparr>model1 = \<lparr>m1_class = model1Class, m1_confidence = model1Confidence\<rparr>,
          model2 = \<lparr>m2_class = model2Class, m2_confidence = model2Confidence,
                    m2_boundingBox = boundingBox\<rparr>,
          imageData = ''data:'' @ mime @ '';base64,'' @ base64Image,
          imageWidth = imageWidth,
          imageHeight = imageHeight,
          allPredictions = allPredictions,
          timestamp = timestamp_ms rx\<rparr>)"

definition classify ::
  "env \<Rightarrow> reactions \<Rightarrow> string \<Rightarrow> upload \<Rightarrow> string \<Rightarrow> string \<Rightarrow> string \<Rightarrow> string \<Rightarrow>
   string \<Rightarrow> int option \<Rightarrow> res_headers \<Rightarrow> world \<Rightarrow> http_response \<times> world" where
  "classify e rx clientIP imageFile mime base64Image MODEL2_URL API_KEY
            model1Class model1Confidence hs w =
     (case callRoboflowAPI base64Image MODEL2_URL API_KEY (model2_reply rx) w of
        (Inl message, w1) \<Rightarrow> on_error e (Some (filepath imageFile)) message hs w1
      | (Inr model2Response, w1) \<Rightarrow>
          (case first_prediction model2Response of
             None \<Rightarrow>
               (respond hs 500 (Error_json ''Model 2 returned no predictions'' ''model_error''),
                deleteImageFile (Some (filepath imageFile)) w1)
           | Some model2Prediction \<Rightarrow>
               (let d = assemble rx mime base64Image model1Class model1Confidence
                          model2Response model2Prediction;
                    entry = \<lparr>log_timestamp = timestamp d, log_ip = clientIP,
                             log_model1Class = model1Class,
                             log_model1Confidence = model1Confidence,
                             log_model2Class = m2_class (model2 d),
                             log_model2Confidence = m2_confidence (model2 d),
                             log_imageMeta =
                               \<lparr>meta_size = size imageFile, meta_type = Some mime,
                                meta_width = imageWidth d, meta_height = imageHeight d\<rparr>\<rparr>;
                    w2 = w1\<lparr>logged := logged w1 @ [entry]\<rparr>
                in (respond hs 200 (Result_json d),
                    deleteImageFile (Some (filepath imageFile)) w2))))"

text \<open>
  Lines 405 to 453: the call of the verification model and the two checks on its answer.

  \<open>predictions.sort((a, b) => b.confidence - a.confidence)\<close> sorts the array of the
  response in place, so the later read of \<open>model1Response.predictions?.[0]\<close> sees the sorted
  array; when the response has no \<open>predictions\<close> the sorted array is a fresh \<open>[]\<close>. When
  every element has a confidence, the difference of two doubles has the sign of their
  exact difference and the sort, which is stable, orders by confidence, descending. When
  an element has none, the comparison function returns \<open>NaN\<close> and is not consistent: the
  language leaves the order to the engine, and it is taken from the reactions (an array
  of fewer than two elements is never compared and stays as it is).
\<close>

definition sort_desc ::
  "(prediction list \<Rightarrow> prediction list) \<Rightarrow> prediction list \<Rightarrow> prediction list" where
  "sort_desc engine ps =
     (if list_all (\<lambda>p. pred_confidence p \<noteq> None) ps then
        sort_key (\<lambda>p. - num_or_0 (pred_confidence p)) ps
      else if length ps \<le> 1 then ps
      else engine ps)"

text \<open>
  Line 441 rounds \<open>(confidence || 0) * 100\<close>; when the product overflows, the result is the
  infinity of the sign of the confidence, which is below 50 exactly when it is negative.
  Line 416: \<open>!bestPrediction || bestPrediction.class.toLowerCase() !== "calamansi" ||
  bestPrediction.confidence < 0.5\<close>. Reading \<open>toLowerCase\<close> of a missing \<open>class\<close> throws a
  TypeError; a missing \<open>confidence\<close> compares as \<open>NaN\<close>, which is not below 0.5.
\<close>

datatype check = Check_throws | Check_rejects | Check_passes

definition first_check :: "prediction option \<Rightarrow> check" where
  "first_check bestPrediction =
     (case bestPrediction of
        None \<Rightarrow> Check_rejects
      | Some p \<Rightarrow>
          (case pred_class p of
             None \<Rightarrow> Check_throws
           | Some c \<Rightarrow>
               if toLowerCase c \<noteq> ''calamansi'' then Check_rejects
               else (case pred_confidence p of
                       None \<Rightarrow> Check_passes
                     | Some v \<Rightarrow> if v < 1 / 2 then Check_rejects else Check_passes)))"

definition TypeError_toLowerCase :: string where
  "TypeError_toLowerCase =
     ''Cannot read properties of undefined (reading '' @ [CHR 0x27] @ ''toLowerCase'' @
     [CHR 0x27] @ '')''"

definition second_check ::
  "env \<Rightarrow> reactions \<Rightarrow> string \<Rightarrow> upload \<Rightarrow> string \<Rightarrow> string \<Rightarrow> string \<Rightarrow> string \<Rightarrow>
   res_headers \<Rightarrow> world \<Rightarrow> prediction \<Rightarrow> http_response \<times> world" where
  \<comment> \<open>lines 440 to 457, for the \<open>model1Prediction\<close> of line 431\<close>
  "second_check e rx clientIP imageFile mime base64Image MODEL2_URL API_KEY hs w1
                model1Prediction =
     (let model1Class = js_or (pred_class model1Prediction) (pred_className model1Prediction);
          confidence0 = num_or_0 (pred_confidence model1Prediction);
          model1Confidence = percent (Some confidence0);
          isCalamansi =
            (case model1Class of
               None \<Rightarrow> False
             | Some c \<Rightarrow> str_includes (toLowerCase c) ''calamansi'');
          below50 =
            (case model1Confidence of
               Some n \<Rightarrow> n < 50
             | None \<Rightarrow> confidence0 < 0)
      in if \<not> isCalamansi \<or> below50 then
           (respond hs 400
              (Rejected_json
                 ''Image does not appear to be a calamansi plant. Please upload a clear photo of a calamansi.''
                 ''validation_error'' model1Class (map_option of_int model1Confidence)),
            deleteImageFile (Some (filepath imageFile)) w1)
         else
           classify e rx clientIP imageFile mime base64Image MODEL2_URL API_KEY
             (str_of model1Class) model1Confidence hs w1)"

definition verify ::
  "env \<Rightarrow> reactions \<Rightarrow> string \<Rightarrow> upload \<Rightarrow> string \<Rightarrow> string \<Rightarrow> string \<Rightarrow> string \<Rightarrow> string \<Rightarrow>
   res_headers \<Rightarrow> world \<Rightarrow> http_response \<times> world" where
  "verify e rx clientIP imageFile mime base64Image MODEL1_URL MODEL2_URL API_KEY hs w =
     (case callRoboflowAPI base64Image MODEL1_URL API_KEY (model1_reply rx) w of
        (Inl message, w1) \<Rightarrow> on_error e (Some (filepath imageFile)) message hs w1
      | (Inr response1, w1) \<Rightarrow>
          (let model1Response =
                 response1\<lparr>predictions :=
                   map_option (sort_desc (engine_sort rx)) (predictions response1)\<rparr>;
               predictions1 = (case predictions model1Response of None \<Rightarrow> [] | Some ps \<Rightarrow> ps);
               bestPrediction = (case predictions1 of [] \<Rightarrow> None | p # ps \<Rightarrow> Some p)
           in case first_check bestPrediction of
                Check_throws \<Rightarrow>
                  on_error e (Some (filepath imageFile)) TypeError_toLowerCase hs w1
              | Check_rejects \<Rightarrow>
                  (respond hs 400
                     (Rejected_json ''Image does not appear to be a calamansi plant.''
                        ''validation_error''
                        (case bestPrediction of None \<Rightarrow> None | Some p \<Rightarrow> pred_class p)
                        (case bestPrediction of None \<Rightarrow> None | Some p \<Rightarrow> pred_confidence p)),
                   deleteImageFile (Some (filepath imageFile)) w1)
              | Check_passes \<Rightarrow>
                  (case (case first_prediction model1Response of
                           Some p \<Rightarrow> Some p | None \<Rightarrow> resp_top model1Response) of
                     None \<Rightarrow>
                       (respond hs 500
                          (Error_json ''Model 1 returned no predictions'' ''model_error''),
                        deleteImageFile (Some (filepath imageFile)) w1)
                   | Some model1Prediction \<Rightarrow>
                       second_check e rx clientIP imageFile mime base64Image MODEL2_URL
                         API_KEY hs w1 model1Prediction)))"

text \<open>
  Lines 355 to 403: the multipart parse, the checks on the file and on the configuration.
  Only the file taken from \<open>files.image\<close> is recorded in \<open>uploadedFilePath\<close>.
\<close>

definition imageFile_of :: "files_image \<Rightarrow> upload option" where
  \<comment> \<open>\<open>files.image?.[0] || files.image\<close>\<close>
  "imageFile_of fi = (case fi of Absent \<Rightarrow> None | Single f \<Rightarrow> Some f | Multiple f fs \<Rightarrow> Some f)"

definition allowed_mime :: "string option \<Rightarrow> string option" where
  \<comment> \<open>the type when \<open>ALLOWED_TYPES.includes\<close> holds of it\<close>
  "allowed_mime t =
     (case t of None \<Rightarrow> None | Some s \<Rightarrow> if s \<in> set ALLOWED_TYPES then Some s else None)"

definition detect ::
  "env \<Rightarrow> reactions \<Rightarrow> string \<Rightarrow> res_headers \<Rightarrow> world \<Rightarrow> http_response \<times> world" where
  "detect e rx clientIP hs w =
     (case parseForm rx w of
        (Inl message, w0) \<Rightarrow> on_error e None message hs w0
      | (Inr files, w0) \<Rightarrow>
          (case imageFile_of (image_field files) of
             None \<Rightarrow>
               (respond hs 400 (Error_json ''No image file provided'' ''validation_error''), w0)
           | Some imageFile \<Rightarrow>
               (let uploadedFilePath = Some (filepath imageFile)
                in case allowed_mime (mimetype imageFile) of
                     None \<Rightarrow>
                       (respond hs 400
                          (Error_json ''Invalid file type. Only JPEG, PNG, and WebP are allowed.''
                             ''validation_error''),
                        deleteImageFile uploadedFilePath w0)
                   | Some mime \<Rightarrow>
                       if size imageFile > MAX_FILE_SIZE then
                         (respond hs 400
                            (Error_json ''File size exceeds 10MB limit'' ''validation_error''),
                          deleteImageFile uploadedFilePath w0)
                       else
                         (case file_base64 rx of
                            Inl message \<Rightarrow> on_error e uploadedFilePath message hs w0
                          | Inr base64Image \<Rightarrow>
                              if \<not> truthy (ROBOFLOW_MODEL1_URL e) \<or>
                                 \<not> truthy (ROBOFLOW_MODEL2_URL e) \<or>
                                 \<not> truthy (ROBOFLOW_API_KEY e) then
                                (respond hs 500
                                   (Error_json ''Server configuration error'' ''config_error''),
                                 deleteImageFile uploadedFilePath w0)
                              else
                                verify e rx clientIP imageFile mime base64Image
                                  (str_of (ROBOFLOW_MODEL1_URL e)) (str_of (ROBOFLOW_MODEL2_URL e))
                                  (str_of (ROBOFLOW_API_KEY e)) hs w0))))"

text \<open>
  Lines 304 to 353. The \<open>const rateLimit\<close> of line 339 is declared inside the block of the
  \<open>if\<close> of line 338 and is visible only there. Line 344 reads the identifier after that
  block has closed, where neither the function nor the module declares it: the lookup
  finds no binding and the read throws a ReferenceError, which the \<open>catch\<close> of the handler
  receives. The headers set before the throw stay on the response.
\<close>

definition rateLimit_outside_block :: "rate_result option" where
  \<comment> \<open>the binding of the identifier \<open>rateLimit\<close> in scope at line 344\<close>
  "rateLimit_outside_block = None"

definition cors_headers :: "env \<Rightarrow> request \<Rightarrow> res_headers" where
  "cors_headers e req =
     (let allowedOrigins = [str_of (js_or (ALLOWED_ORIGIN e) (Some ''http://localhost:3000'')),
                            ''https://*.vercel.app''];
          origin = req_origin req
      in (if truthy origin \<and>
             (str_of origin \<in> set allowedOrigins \<or> str_includes (str_of origin) ''.vercel.app'')
          then [(''Access-Control-Allow-Origin'', Text (str_of origin))] else []) @
         [(''Access-Control-Allow-Methods'', Text ''POST, OPTIONS''),
          (''Access-Control-Allow-Headers'', Text ''Content-Type'')])"

definition handler :: "env \<Rightarrow> reactions \<Rightarrow> request \<Rightarrow> world \<Rightarrow> http_response \<times> world" where
  "handler e rx req w =
     (let hs = cors_headers e req
      in if req_method req = ''OPTIONS'' then (respond hs 200 No_body, w)
         else if req_method req \<noteq> ''POST'' then
           (respond hs 405 (Error_json ''Method not allowed'' ''method_error''), w)
         else
           (let clientIP = getClientIP req;
                paused = (RATE_LIMIT_PAUSED e = Some ''true'');
                (hs1, w1) =
                  (if \<not> paused then
                     (let (rateLimit, m) = checkRateLimit (now_ms rx) clientIP (rateLimitMap w)
                      in (hs @ [(''X-RateLimit-Limit'', Num MAX_REQUESTS),
                                (''X-RateLimit-Remaining'', Num (remaining rateLimit))],
                          w\<lparr>rateLimitMap := m\<rparr>))
                   else (hs, w))
            in case rateLimit_outside_block of
                 None \<Rightarrow> on_error e None ''rateLimit is not defined'' hs1 w1
               | Some rateLimit \<Rightarrow>
                   if \<not> allowed rateLimit then
                     (case resetTime rateLimit of
                        None \<Rightarrow> on_error e None ''Invalid time value'' hs1 w1
                      | Some t \<Rightarrow>
                          (respond (hs1 @ [(''X-RateLimit-Reset'', Iso_date t)]) 429
                             (Rate_limit_json ''Too many requests. Please try again later.''
                                ''rate_limit_error'' t), w1))
                   else detect e rx clientIP hs1 w1))"

section \<open>The client: handing the result over and drawing it\<close>

text \<open>
  script.js, processDetection (lines 139 to 154) copies the fields of the response into the
  object kept in session storage; \<open>allPredictions\<close> is copied as it came. The two
  confidences are turned into strings with \<open>toString()\<close>, which throws a TypeError on a
  \<open>null\<close>: then nothing is stored and the result page is not reached. The strings are used
  for display only; they stay integers here.
\<close>

record stored_result =
  st_model2_class :: "string option"
  st_model2_confidence :: int
  st_model2_boundingBox :: box
  st_imageWidth :: rat
  st_imageHeight :: rat
  st_allPredictions :: "pred_view list option"

definition store_result :: "responseData \<Rightarrow> string + stored_result" where
  "store_result d =
     (case (m1_confidence (model1 d), m2_confidence (model2 d)) of
        (Some c1, Some c2) \<Rightarrow>
          Inr \<lparr>st_model2_class = m2_class (model2 d),
               st_model2_confidence = c2,
               st_model2_boundingBox = m2_boundingBox (model2 d),
               st_imageWidth = imageWidth d,
               st_imageHeight = imageHeight d,
               st_allPredictions = Some (allPredictions d)\<rparr>
      | _ \<Rightarrow> Inl ''TypeError'')"

text \<open>
  The result page (lines 132 to 136): \<open>result.allPredictions || [...]\<close>. An array is truthy
  also when it is empty, so the one-element list built from \<open>model2\<close> is used only when the
  stored object has no \<open>allPredictions\<close>.
\<close>

definition predictions_to_draw :: "stored_result \<Rightarrow> pred_view list" where
  "predictions_to_draw result =
     (case st_allPredictions result of
        Some ps \<Rightarrow> ps
      | None \<Rightarrow> [\<lparr>view_class = st_model2_class result,
                  view_confidence = Some (st_model2_confidence result),
                  view_boundingBox = Some (st_model2_boundingBox result)\<rparr>])"

record rect =
  rect_x :: "rat option"
  rect_y :: "rat option"
  rect_width :: "rat option"
  rect_height :: "rat option"
  rect_color :: string

definition boxColors :: "string list" where
  "boxColors = [''#00FF00'', ''#FF00FF'', ''#00FFFF'', ''#FFFF00'', ''#FF6600'', ''#FF0066'']"

text \<open>
  result.js, drawImageWithBoundingBoxes: lines 63 to 66 for one prediction, the \<open>forEach\<close>
  of line 58, and the scale factors of lines 54 and 55, all in double arithmetic. The
  rectangles are the arguments of the calls of \<open>strokeRect\<close>, in order. Reading
  \<open>boundingBox.x\<close> of a prediction without \<open>boundingBox\<close> throws a TypeError before its
  rectangle is stroked; reading \<open>pred.class.toLowerCase()\<close> of a prediction without \<open>class\<close>
  (line 74) throws one after it is stroked. Either ends the \<open>forEach\<close>. The label drawn
  above each rectangle is left out.
\<close>

definition box_rect :: "rat option \<Rightarrow> rat option \<Rightarrow> nat \<Rightarrow> box \<Rightarrow> rect" where
  "box_rect scaleX scaleY index boundingBox =
     \<lparr>rect_x = num_mul (num_sub (box_x boundingBox) (num_div (box_width boundingBox) 2)) scaleX,
      rect_y = num_mul (num_sub (box_y boundingBox) (num_div (box_height boundingBox) 2)) scaleY,
      rect_width = num_mul (box_width boundingBox) scaleX,
      rect_height = num_mul (box_height boundingBox) scaleY,
      rect_color = boxColors ! (index mod length boxColors)\<rparr>"

fun draw_boxes ::
  "rat option \<Rightarrow> rat option \<Rightarrow> nat \<Rightarrow> pred_view list \<Rightarrow> rect list \<times> string option" where
  "draw_boxes scaleX scaleY index [] = ([], None)"
| "draw_boxes scaleX scaleY index (pred # preds) =
     (case view_boundingBox pred of
        None \<Rightarrow> ([], Some ''TypeError'')
      | Some boundingBox \<Rightarrow>
          (case view_class pred of
             None \<Rightarrow> ([box_rect scaleX scaleY index boundingBox], Some ''TypeError'')
           | Some c \<Rightarrow>
               (let (rs, err) = draw_boxes scaleX scaleY (Suc index) preds
                in (box_rect scaleX scaleY index boundingBox # rs, err))))"

definition drawImageWithBoundingBoxes ::
  "rat \<Rightarrow> rat \<Rightarrow> pred_view list \<Rightarrow> rat \<Rightarrow> rat \<Rightarrow> rect list \<times> string option" where
  "drawImageWithBoundingBoxes img_width img_height preds originalWidth originalHeight =
     (let scaleX = num_div (Some img_width) originalWidth;
          scaleY = num_div (Some img_height) originalHeight
      in draw_boxes scaleX scaleY 0 preds)"

definition draw_result :: "rat \<Rightarrow> rat \<Rightarrow> stored_result \<Rightarrow> rect list \<times> string option" where
  \<comment> \<open>the call of lines 142 to 147, for an image of the given natural size\<close>
  "draw_result img_width img_height result =
     drawImageWithBoundingBoxes img_width img_height (predictions_to_draw result)
       (st_imageWidth result) (st_imageHeight result)"

text \<open>
  The prediction that lines 413 and 414 select: the first element of the array once it is
  sorted; none when the response has no \<open>predictions\<close> or an empty array.
\<close>

definition top_prediction ::
  "(prediction list \<Rightarrow> prediction list) \<Rightarrow> response \<Rightarrow> prediction option" where
  "top_prediction engine r =
     (case predictions r of
        None \<Rightarrow> None
      | Some ps \<Rightarrow> (case sort_desc engine ps of [] \<Rightarrow> None | p # qs \<Rightarrow> Some p))"

section \<open>The verification gate in the words of the specification\<close>

text \<open>
  The specification's gate on the top verification prediction: the label contains
  "calamansi" regardless of case, and the fractional confidence is at least 0.5. It is
  compared below with what lines 413 to 453 decide.
\<close>

definition spec_gate :: "string \<Rightarrow> rat \<Rightarrow> bool" where
  "spec_gate label conf = (str_includes (toLowerCase label) ''calamansi'' \<and> 1 / 2 \<le> conf)"

section \<open>Concrete requests\<close>

definition example_env :: env where
  "example_env =
     \<lparr>ALLOWED_ORIGIN = None, RATE_LIMIT_PAUSED = Some ''true'',
      ROBOFLOW_MODEL1_URL = Some ''https://models.example/verify'',
      ROBOFLOW_MODEL2_URL = Some ''https://models.example/disease'',
      ROBOFLOW_API_KEY = Some ''key'', NODE_ENV = None\<rparr>"

definition example_request :: request where
  "example_request =
     \<lparr>req_method = ''POST'', req_origin = None, x_forwarded_for = Some ''203.0.113.7, 10.0.0.1'',
      x_real_ip = None, remoteAddress = None\<rparr>"

definition example_upload :: upload where
  "example_upload = \<lparr>filepath = ''/tmp/upload_1'', mimetype = Some ''image/jpeg'', size = 2048\<rparr>"

definition example_world :: world where
  \<comment> \<open>before the request: nothing in the temporary directory\<close>
  "example_world =
     \<lparr>rateLimitMap = Map.empty, on_disk = {}, unlink_fails = {}, fetched = [], logged = []\<rparr>"

definition labelled :: "string \<Rightarrow> rat \<Rightarrow> prediction" where
  \<comment> \<open>a prediction with a class and a confidence (the double of the decimal given), and
      nothing else\<close>
  "labelled c v =
     \<lparr>pred_class = Some c, pred_className = None, pred_confidence = Some (dbl v),
      pred_x = None, pred_y = None, pred_width = None, pred_height = None\<rparr>"

definition located :: "string \<Rightarrow> rat \<Rightarrow> rat \<Rightarrow> rat \<Rightarrow> rat \<Rightarrow> rat \<Rightarrow> prediction" where
  \<comment> \<open>a prediction with a class, a confidence and a centre-and-size box\<close>
  "located c v cx cy bw bh =
     \<lparr>pred_class = Some c, pred_className = None, pred_confidence = Some (dbl v),
      pred_x = Some (dbl cx), pred_y = Some (dbl cy), pred_width = Some (dbl bw),
      pred_height = Some (dbl bh)\<rparr>"

definition listed :: "prediction list \<Rightarrow> response" where
  \<comment> \<open>a response that holds a \<open>predictions\<close> array only\<close>
  "listed ps = \<lparr>predictions = Some ps, resp_top = None, resp_image = None\<rparr>"

definition top_only :: "prediction \<Rightarrow> response" where
  \<comment> \<open>a response that holds a single \<open>top\<close> object and no \<open>predictions\<close>\<close>
  "top_only p = \<lparr>predictions = None, resp_top = Some p, resp_image = None\<rparr>"

definition example_form :: form_files where
  \<comment> \<open>one file, in the field \<open>image\<close>\<close>
  "example_form = \<lparr>image_field = Multiple example_upload [], other_uploads = []\<rparr>"


definition example_reactions :: "response \<Rightarrow> response \<Rightarrow> reactions" where
  "example_reactions r1 r2 =
     \<lparr>now_ms = 1000, parsed = Inr example_form, file_base64 = Inr ''QUJD'',
      model1_reply = Json r1, model2_reply = Json r2, timestamp_ms = 2000,
      engine_sort = (\<lambda>ps. ps)\<rparr>"

definition example_diseases :: response where
  "example_diseases =
     listed [located ''black spot'' (81 / 100) 320 320 100 100,
             located ''healthy calamansi'' (10 / 100) 100 120 40 60]"

section \<open>The rate limiter\<close>

lemma calls_allowed_length: "length (fst (calls_allowed ip ts m)) = length ts"
  by (induction ts arbitrary: m) (auto simp: split_def Let_def)

lemma calls_allowed_within:
  "m ip = Some r \<Longrightarrow> \<forall>u \<in> set ts. u \<le> rec_resetTime r \<Longrightarrow> n < length ts \<Longrightarrow>
   fst (calls_allowed ip ts m) ! n = (rec_count r + int n < MAX_REQUESTS)"
proof (induction ts arbitrary: m r n)
  case Nil
  then show ?case by simp
next
  case (Cons t ts)
  have t: "\<not> t > rec_resetTime r" using Cons.prems(2) by simp
  show ?case
  proof (cases "rec_count r \<ge> MAX_REQUESTS")
    case True
    then have step: "checkRateLimit t ip m =
        (\<lparr>allowed = False, remaining = 0, resetTime = Some (rec_resetTime r)\<rparr>, m)"
      using Cons.prems(1) t by (simp add: checkRateLimit_def)
    show ?thesis
    proof (cases n)
      case 0
      then show ?thesis using step True by (simp add: split_def Let_def)
    next
      case (Suc k)
      have "fst (calls_allowed ip ts m) ! k = (rec_count r + int k < MAX_REQUESTS)"
        by (rule Cons.IH) (use Cons.prems Suc in simp_all)
      then show ?thesis using step True Suc by (simp add: split_def Let_def)
    qed
  next
    case False
    define r' where "r' = r\<lparr>rec_count := rec_count r + 1\<rparr>"
    define m' where "m' = m(ip \<mapsto> r')"
    have step: "checkRateLimit t ip m =
        (\<lparr>allowed = True, remaining = MAX_REQUESTS - (rec_count r + 1), resetTime = None\<rparr>, m')"
      using Cons.prems(1) t False by (simp add: checkRateLimit_def m'_def r'_def)
    show ?thesis
    proof (cases n)
      case 0
      then show ?thesis using step False by (simp add: split_def Let_def)
    next
      case (Suc k)
      have "fst (calls_allowed ip ts m') ! k = (rec_count r' + int k < MAX_REQUESTS)"
        by (rule Cons.IH) (use Cons.prems Suc in \<open>simp_all add: m'_def r'_def\<close>)
      then show ?thesis using step Suc by (simp add: split_def Let_def r'_def add.assoc)
    qed
  qed
qed

lemma checkRateLimit_fresh:
  "m ip = None \<or> (\<exists>r. m ip = Some r \<and> now > rec_resetTime r) \<Longrightarrow>
   checkRateLimit now ip m =
     (\<lparr>allowed = True, remaining = MAX_REQUESTS - 1, resetTime = None\<rparr>,
      m(ip \<mapsto> \<lparr>rec_count = 1, rec_resetTime = now + RATE_LIMIT_WINDOW\<rparr>))"
  by (auto simp: checkRateLimit_def)

lemma calls_allowed_window:
  assumes fresh: "m ip = None \<or> (\<exists>r. m ip = Some r \<and> t > rec_resetTime r)"
    and win: "\<forall>u \<in> set ts. u \<le> t + RATE_LIMIT_WINDOW"
    and n: "n < length (t # ts)"
  shows "fst (calls_allowed ip (t # ts) m) ! n = (n + 1 \<le> 5)"
proof -
  define r where "r = \<lparr>rec_count = 1, rec_resetTime = t + RATE_LIMIT_WINDOW\<rparr>"
  define m' where "m' = m(ip \<mapsto> r)"
  have step: "checkRateLimit t ip m =
      (\<lparr>allowed = True, remaining = MAX_REQUESTS - 1, resetTime = None\<rparr>, m')"
    using checkRateLimit_fresh [of m ip t, OF fresh] by (simp add: m'_def r_def)
  show ?thesis
  proof (cases n)
    case 0
    then show ?thesis using step by (simp add: split_def Let_def)
  next
    case (Suc k)
    have "fst (calls_allowed ip ts m') ! k = (rec_count r + int k < MAX_REQUESTS)"
      by (rule calls_allowed_within) (use win n Suc in \<open>simp_all add: m'_def r_def\<close>)
    then show ?thesis using step Suc
      by (simp add: split_def Let_def MAX_REQUESTS_def r_def) arith
  qed
qed

text \<open>
  C5. The contract of \<open>checkRateLimit\<close>, for every client key, with a quota of 5 and a
  window of one hour (3600000 ms). A call with no record, or with \<open>now\<close> strictly past the
  reset time of the record, installs a fresh record with count 1 and reset time
  \<open>now + window\<close> and returns allowed with 4 remaining. A call within the window with a
  count of at least 5 returns not allowed, 0 remaining and the reset time of the record, and
  leaves the map as it was. Any other call within the window increments the count and
  returns allowed with quota minus the new count remaining. Hence, of the requests made
  within one window, starting from a fresh one, the N-th is allowed exactly when N is at
  most 5.
\<close>

theorem rate_limiter_contract:
  "(m ip = None \<or> (\<exists>r. m ip = Some r \<and> now > rec_resetTime r) \<longrightarrow>
      checkRateLimit now ip m =
        (\<lparr>allowed = True, remaining = 5 - 1, resetTime = None\<rparr>,
         m(ip \<mapsto> \<lparr>rec_count = 1, rec_resetTime = now + 3600000\<rparr>))) \<and>
   (m ip = Some r \<and> now \<le> rec_resetTime r \<and> 5 \<le> rec_count r \<longrightarrow>
      checkRateLimit now ip m =
        (\<lparr>allowed = False, remaining = 0, resetTime = Some (rec_resetTime r)\<rparr>, m)) \<and>
   (m ip = Some r \<and> now \<le> rec_resetTime r \<and> rec_count r < 5 \<longrightarrow>
      checkRateLimit now ip m =
        (\<lparr>allowed = True, remaining = 5 - (rec_count r + 1), resetTime = None\<rparr>,
         m(ip \<mapsto> r\<lparr>rec_count := rec_count r + 1\<rparr>))) \<and>
   ((m ip = None \<or> (\<exists>r. m ip = Some r \<and> t > rec_resetTime r)) \<and>
    (\<forall>u \<in> set ts. u \<le> t + 3600000) \<and> n < length (t # ts) \<longrightarrow>
      fst (calls_allowed ip (t # ts) m) ! n = (n + 1 \<le> 5))"
proof (intro conjI impI)
  assume "m ip = None \<or> (\<exists>r. m ip = Some r \<and> now > rec_resetTime r)"
  then show "checkRateLimit now ip m =
        (\<lparr>allowed = True, remaining = 5 - 1, resetTime = None\<rparr>,
         m(ip \<mapsto> \<lparr>rec_count = 1, rec_resetTime = now + 3600000\<rparr>))"
    using checkRateLimit_fresh [of m ip now]
    by (simp add: MAX_REQUESTS_def RATE_LIMIT_WINDOW_def)
next
  assume "m ip = Some r \<and> now \<le> rec_resetTime r \<and> 5 \<le> rec_count r"
  then show "checkRateLimit now ip m =
        (\<lparr>allowed = False, remaining = 0, resetTime = Some (rec_resetTime r)\<rparr>, m)"
    by (simp add: checkRateLimit_def MAX_REQUESTS_def)
next
  assume "m ip = Some r \<and> now \<le> rec_resetTime r \<and> rec_count r < 5"
  then show "checkRateLimit now ip m =
        (\<lparr>allowed = True, remaining = 5 - (rec_count r + 1), resetTime = None\<rparr>,
         m(ip \<mapsto> r\<lparr>rec_count := rec_count r + 1\<rparr>))"
    by (simp add: checkRateLimit_def MAX_REQUESTS_def)
next
  assume "(m ip = None \<or> (\<exists>r. m ip = Some r \<and> t > rec_resetTime r)) \<and>
    (\<forall>u \<in> set ts. u \<le> t + 3600000) \<and> n < length (t # ts)"
  then show "fst (calls_allowed ip (t # ts) m) ! n = (n + 1 \<le> 5)"
    using calls_allowed_window [of m ip t ts n] by (simp add: RATE_LIMIT_WINDOW_def)
qed

theorem rate_limiter_contract_witness:
  "checkRateLimit 1000 ''203.0.113.7'' Map.empty =
     (\<lparr>allowed = True, remaining = 4, resetTime = None\<rparr>,
      [''203.0.113.7'' \<mapsto> \<lparr>rec_count = 1, rec_resetTime = 3601000\<rparr>]) \<and>
   checkRateLimit 2000 ''203.0.113.7''
       [''203.0.113.7'' \<mapsto> \<lparr>rec_count = 5, rec_resetTime = 3601000\<rparr>] =
     (\<lparr>allowed = False, remaining = 0, resetTime = Some 3601000\<rparr>,
      [''203.0.113.7'' \<mapsto> \<lparr>rec_count = 5, rec_resetTime = 3601000\<rparr>]) \<and>
   checkRateLimit 2000 ''203.0.113.7''
       [''203.0.113.7'' \<mapsto> \<lparr>rec_count = 4, rec_resetTime = 3601000\<rparr>] =
     (\<lparr>allowed = True, remaining = 0, resetTime = None\<rparr>,
      [''203.0.113.7'' \<mapsto> \<lparr>rec_count = 5, rec_resetTime = 3601000\<rparr>]) \<and>
   fst (calls_allowed ''203.0.113.7'' [1000, 1001, 1002, 1003, 1004, 1005] Map.empty) ! 4 = True \<and>
   fst (calls_allowed ''203.0.113.7'' [1000, 1001, 1002, 1003, 1004, 1005] Map.empty) ! 5 = False"
proof -
  let ?ip = "''203.0.113.7''"
  let ?ts = "[1001, 1002, 1003, 1004, 1005] :: int list"
  let ?full = "\<lparr>rec_count = 5, rec_resetTime = 3601000\<rparr>"
  let ?four = "\<lparr>rec_count = 4, rec_resetTime = 3601000\<rparr>"
  have a: "checkRateLimit 1000 ?ip Map.empty =
     (\<lparr>allowed = True, remaining = 4, resetTime = None\<rparr>,
      [?ip \<mapsto> \<lparr>rec_count = 1, rec_resetTime = 3601000\<rparr>])"
    using rate_limiter_contract [of Map.empty ?ip 1000 undefined 0 "[]" 0] by simp
  have b: "checkRateLimit 2000 ?ip [?ip \<mapsto> ?full] =
     (\<lparr>allowed = False, remaining = 0, resetTime = Some 3601000\<rparr>, [?ip \<mapsto> ?full])"
    using rate_limiter_contract [of "[?ip \<mapsto> ?full]" ?ip 2000 ?full 0 "[]" 0] by simp
  have c: "checkRateLimit 2000 ?ip [?ip \<mapsto> ?four] =
     (\<lparr>allowed = True, remaining = 0, resetTime = None\<rparr>, [?ip \<mapsto> ?full])"
    using rate_limiter_contract [of "[?ip \<mapsto> ?four]" ?ip 2000 ?four 0 "[]" 0] by simp
  have d: "fst (calls_allowed ?ip (1000 # ?ts) Map.empty) ! 4 = True"
    using rate_limiter_contract [of Map.empty ?ip 1000 undefined 1000 ?ts 4]
    by (simp del: calls_allowed.simps)
  have e: "fst (calls_allowed ?ip (1000 # ?ts) Map.empty) ! 5 = False"
    using rate_limiter_contract [of Map.empty ?ip 1000 undefined 1000 ?ts 5]
    by (simp del: calls_allowed.simps)
  show ?thesis using a b c d e by (simp only: simp_thms)
qed

section \<open>Deleting the temporary file\<close>

lemma deleteImageFile_frame:
  "fetched (deleteImageFile fp w) = fetched w"
  "unlink_fails (deleteImageFile fp w) = unlink_fails w"
  "rateLimitMap (deleteImageFile fp w) = rateLimitMap w"
  "logged (deleteImageFile fp w) = logged w"
  by (auto simp: deleteImageFile_def unlinkSync_def split: option.splits)

lemma deleteImageFile_removes:
  "p \<noteq> [] \<Longrightarrow> p \<notin> unlink_fails w \<Longrightarrow> p \<notin> on_disk (deleteImageFile (Some p) w)"
  by (auto simp: deleteImageFile_def unlinkSync_def)

lemma deleteImageFile_keeps:
  "q \<in> on_disk w \<Longrightarrow> fp \<noteq> Some q \<Longrightarrow> q \<in> on_disk (deleteImageFile fp w)"
  by (auto simp: deleteImageFile_def unlinkSync_def split: option.splits)

lemma deleteImageFile_twice:
  "deleteImageFile fp (deleteImageFile fp w) = deleteImageFile fp w"
  by (auto simp: deleteImageFile_def unlinkSync_def split: option.splits)

lemma deleteImageFile_swallows:
  "unlinkSync p w = Inl err \<Longrightarrow> deleteImageFile (Some p) w = w"
  by (auto simp: deleteImageFile_def)

lemma on_error_world:
  "snd (on_error e fp msg hs w) = (if truthy fp then deleteImageFile fp w else w)"
  by (simp add: on_error_def Let_def)

lemma on_error_status:
  "status (fst (on_error e fp msg hs w)) \<noteq> 200"
  by (simp add: on_error_def Let_def respond_def)

lemma on_error_keeps:
  "q \<in> on_disk w \<Longrightarrow> fp \<noteq> Some q \<Longrightarrow> q \<in> on_disk (snd (on_error e fp msg hs w))"
  by (simp add: on_error_world deleteImageFile_keeps)

lemma callRoboflowAPI_world:
  "snd (callRoboflowAPI b u k reply w) = w\<lparr>fetched := fetched w @ [u @ ''?api_key='' @ k]\<rparr>"
  by (simp add: callRoboflowAPI_def Let_def split: api_outcome.splits)

lemma callRoboflowAPI_Json:
  "callRoboflowAPI b u k (Json r) w = (Inr r, w\<lparr>fetched := fetched w @ [u @ ''?api_key='' @ k]\<rparr>)"
  by (simp add: callRoboflowAPI_def Let_def)

section \<open>The disease stage\<close>

lemma classify_fetched:
  "fetched (snd (classify e rx ip f mime b u2 k c1 n1 hs w)) = fetched w @ [u2 @ ''?api_key='' @ k]"
  by (cases "model2_reply rx")
     (auto simp: classify_def callRoboflowAPI_def Let_def on_error_world deleteImageFile_frame
           split: option.splits)

lemma classify_deletes:
  "filepath f \<noteq> [] \<Longrightarrow> filepath f \<notin> unlink_fails w \<Longrightarrow>
   filepath f \<notin> on_disk (snd (classify e rx ip f mime b u2 k c1 n1 hs w))"
  by (cases "model2_reply rx")
     (auto simp: classify_def callRoboflowAPI_def Let_def on_error_world truthy_def
                 deleteImageFile_removes split: option.splits)


lemma classify_Json:
  "model2_reply rx = Json r2 \<Longrightarrow> first_prediction r2 = Some p \<Longrightarrow>
   fst (classify e rx ip f mime b u2 k c1 n1 hs w) =
     respond hs 200 (Result_json (assemble rx mime b c1 n1 r2 p))"
  by (simp add: classify_def callRoboflowAPI_def Let_def)

lemma classify_200:
  "status (fst (classify e rx ip f mime b u2 k c1 n1 hs w)) = 200 \<Longrightarrow>
   \<exists>r2 p. model2_reply rx = Json r2 \<and> first_prediction r2 = Some p \<and>
          body (fst (classify e rx ip f mime b u2 k c1 n1 hs w)) =
            Result_json (assemble rx mime b c1 n1 r2 p)"
  by (cases "model2_reply rx")
     (auto simp: classify_def callRoboflowAPI_def Let_def on_error_status respond_def
           split: option.splits)

section \<open>The verification stage\<close>

lemma Math_round_nearest: "\<bar>of_int (Math_round v) - v\<bar> \<le> 1 / 2"
  unfolding Math_round_def by linarith

lemma verify_throws:
  assumes "model1_reply rx = Json r" and "first_check (top_prediction (engine_sort rx) r) = Check_throws"
  shows "verify e rx ip f mime b u1 u2 k hs w =
     on_error e (Some (filepath f)) TypeError_toLowerCase hs
       (w\<lparr>fetched := fetched w @ [u1 @ ''?api_key='' @ k]\<rparr>)"
  using assms
  by (cases "predictions r")
     (auto simp: verify_def callRoboflowAPI_Json Let_def top_prediction_def split: list.splits)

lemma verify_rejects:
  assumes "model1_reply rx = Json r" and "first_check (top_prediction (engine_sort rx) r) = Check_rejects"
  shows "verify e rx ip f mime b u1 u2 k hs w =
     (respond hs 400
        (Rejected_json ''Image does not appear to be a calamansi plant.'' ''validation_error''
           (case top_prediction (engine_sort rx) r of None \<Rightarrow> None | Some p \<Rightarrow> pred_class p)
           (case top_prediction (engine_sort rx) r of None \<Rightarrow> None | Some p \<Rightarrow> pred_confidence p)),
      deleteImageFile (Some (filepath f)) (w\<lparr>fetched := fetched w @ [u1 @ ''?api_key='' @ k]\<rparr>))"
  using assms
  by (cases "predictions r")
     (auto simp: verify_def callRoboflowAPI_Json Let_def top_prediction_def split: list.splits)


lemma second_check_cases:
  "(\<exists>bd. second_check e rx ip f mime b u2 k hs w1 p =
      (respond hs 400 bd, deleteImageFile (Some (filepath f)) w1)) \<or>
   (\<exists>c1 n1. second_check e rx ip f mime b u2 k hs w1 p =
      classify e rx ip f mime b u2 k c1 n1 hs w1)"
  unfolding second_check_def Let_def by (auto split: if_splits)

lemma verify_passes:
  assumes "model1_reply rx = Json r"
    and "first_check (top_prediction (engine_sort rx) r) = Check_passes"
  shows "\<exists>p. top_prediction (engine_sort rx) r = Some p \<and>
     verify e rx ip f mime b u1 u2 k hs w =
       second_check e rx ip f mime b u2 k hs
         (w\<lparr>fetched := fetched w @ [u1 @ ''?api_key='' @ k]\<rparr>) p"
proof -
  from assms(2) obtain p where p: "top_prediction (engine_sort rx) r = Some p"
    by (cases "top_prediction (engine_sort rx) r") (auto simp: first_check_def)
  then obtain ps qs where ps: "predictions r = Some ps"
    and srt: "sort_desc (engine_sort rx) ps = p # qs"
    by (auto simp: top_prediction_def split: option.splits list.splits)
  have fc: "first_check (Some p) = Check_passes" using assms(2) p by simp
  have "verify e rx ip f mime b u1 u2 k hs w =
       second_check e rx ip f mime b u2 k hs
         (w\<lparr>fetched := fetched w @ [u1 @ ''?api_key='' @ k]\<rparr>) p"
    unfolding verify_def callRoboflowAPI_Json assms(1) Let_def
    by (simp add: ps srt fc first_prediction_def)
  with p show ?thesis by blast
qed

lemma verify_cases:
  "(\<exists>msg w1. verify e rx ip f mime b u1 u2 k hs w = on_error e (Some (filepath f)) msg hs w1 \<and>
      on_disk w1 = on_disk w \<and> unlink_fails w1 = unlink_fails w \<and>
      fetched w1 = fetched w @ [u1 @ ''?api_key='' @ k]) \<or>
   (\<exists>st bd w1. verify e rx ip f mime b u1 u2 k hs w =
      (respond hs st bd, deleteImageFile (Some (filepath f)) w1) \<and> st \<noteq> 200 \<and>
      on_disk w1 = on_disk w \<and> unlink_fails w1 = unlink_fails w \<and>
      fetched w1 = fetched w @ [u1 @ ''?api_key='' @ k]) \<or>
   (\<exists>c1 n1. verify e rx ip f mime b u1 u2 k hs w =
      classify e rx ip f mime b u2 k c1 n1 hs (w\<lparr>fetched := fetched w @ [u1 @ ''?api_key='' @ k]\<rparr>))"
  (is "?E \<or> ?R \<or> ?C")
proof (cases "model1_reply rx")
  case (Json r)
  let ?w1 = "w\<lparr>fetched := fetched w @ [u1 @ ''?api_key='' @ k]\<rparr>"
  show ?thesis
  proof (cases "first_check (top_prediction (engine_sort rx) r)")
    case Check_throws
    from verify_throws [OF Json this, of e ip f mime b u1 u2 k hs w] have ?E
      by (intro exI [of _ TypeError_toLowerCase] exI [of _ ?w1]) simp
    then show ?thesis ..
  next
    case Check_rejects
    from verify_rejects [OF Json this, of e ip f mime b u1 u2 k hs w] have ?R
      by (intro exI [of _ 400] exI [of _ "Rejected_json _ _ _ _"] exI [of _ ?w1]) simp
    then show ?thesis by blast
  next
    case Check_passes
    from verify_passes [OF Json this, of e ip f mime b u1 u2 k hs w]
    obtain p where v: "verify e rx ip f mime b u1 u2 k hs w =
       second_check e rx ip f mime b u2 k hs ?w1 p"
      by blast
    from second_check_cases [of e rx ip f mime b u2 k hs ?w1 p] show ?thesis
    proof
      assume "\<exists>bd. second_check e rx ip f mime b u2 k hs ?w1 p =
        (respond hs 400 bd, deleteImageFile (Some (filepath f)) ?w1)"
      then obtain bd where "second_check e rx ip f mime b u2 k hs ?w1 p =
        (respond hs 400 bd, deleteImageFile (Some (filepath f)) ?w1)" ..
      with v have ?R by (intro exI [of _ 400] exI [of _ bd] exI [of _ ?w1]) simp
      then show ?thesis by blast
    next
      assume "\<exists>c1 n1. second_check e rx ip f mime b u2 k hs ?w1 p =
        classify e rx ip f mime b u2 k c1 n1 hs ?w1"
      with v have ?C by simp
      then show ?thesis by blast
    qed
  qed
next
  case (Fetch_throws m)
  then have ?E
    by (intro exI [of _ m] exI [of _ "w\<lparr>fetched := fetched w @ [u1 @ ''?api_key='' @ k]\<rparr>"])
       (simp add: verify_def callRoboflowAPI_def Let_def)
  then show ?thesis ..
next
  case (Not_ok st t)
  then have ?E
    by (intro exI [of _ "''Roboflow API error ('' @ show_nat st @ ''): '' @ t"]
          exI [of _ "w\<lparr>fetched := fetched w @ [u1 @ ''?api_key='' @ k]\<rparr>"])
       (simp add: verify_def callRoboflowAPI_def Let_def)
  then show ?thesis ..
qed

lemma verify_deletes:
  assumes "filepath f \<noteq> []" and "filepath f \<notin> unlink_fails w"
  shows "filepath f \<notin> on_disk (snd (verify e rx ip f mime b u1 u2 k hs w))"
  using verify_cases [of e rx ip f mime b u1 u2 k hs w] assms
  by (auto simp: on_error_world truthy_def deleteImageFile_removes classify_deletes)


lemma verify_200:
  assumes "status (fst (verify e rx ip f mime b u1 u2 k hs w)) = 200"
  shows "\<exists>c1 n1 w1. verify e rx ip f mime b u1 u2 k hs w =
           classify e rx ip f mime b u2 k c1 n1 hs w1"
  using verify_cases [of e rx ip f mime b u1 u2 k hs w] assms
  by (auto simp: on_error_status respond_def)

section \<open>The handler body\<close>

lemma parseForm_Inr:
  "parsed rx = Inr files \<Longrightarrow>
   parseForm rx w = (Inr files, w\<lparr>on_disk := on_disk w \<union> set (map filepath (all_uploads files))\<rparr>)"
  by (simp add: parseForm_def)

lemma detect_verify:
  assumes "parsed rx = Inr files" and "imageFile_of (image_field files) = Some f"
    and "allowed_mime (mimetype f) = Some mime" and "size f \<le> MAX_FILE_SIZE"
    and "file_base64 rx = Inr b"
    and "truthy (ROBOFLOW_MODEL1_URL e)" and "truthy (ROBOFLOW_MODEL2_URL e)"
    and "truthy (ROBOFLOW_API_KEY e)"
  shows "detect e rx ip hs w =
     verify e rx ip f mime b (str_of (ROBOFLOW_MODEL1_URL e)) (str_of (ROBOFLOW_MODEL2_URL e))
       (str_of (ROBOFLOW_API_KEY e)) hs
       (w\<lparr>on_disk := on_disk w \<union> set (map filepath (all_uploads files))\<rparr>)"
  using assms by (simp add: detect_def parseForm_Inr Let_def)

lemma detect_deletes:
  assumes "parsed rx = Inr files" and "imageFile_of (image_field files) = Some f"
    and "filepath f \<noteq> []" and "filepath f \<notin> unlink_fails w"
  shows "filepath f \<notin> on_disk (snd (detect e rx ip hs w))"
  using assms
  by (auto simp: detect_def parseForm_Inr Let_def on_error_world truthy_def
        deleteImageFile_removes verify_deletes split: option.splits sum.splits)


lemma detect_200:
  assumes "status (fst (detect e rx ip hs w)) = 200"
  shows "\<exists>files f mime b w0. parsed rx = Inr files \<and>
           imageFile_of (image_field files) = Some f \<and>
           allowed_mime (mimetype f) = Some mime \<and> file_base64 rx = Inr b \<and>
           detect e rx ip hs w =
             verify e rx ip f mime b (str_of (ROBOFLOW_MODEL1_URL e))
               (str_of (ROBOFLOW_MODEL2_URL e)) (str_of (ROBOFLOW_API_KEY e)) hs w0"
  using assms
  by (auto simp: detect_def parseForm_def Let_def on_error_status respond_def
        split: option.splits sum.splits if_splits prod.splits)

lemma detect_200_body:
  assumes "status (fst (detect e rx ip hs w)) = 200"
  shows "\<exists>mime b c1 n1 r2 p. model2_reply rx = Json r2 \<and> first_prediction r2 = Some p \<and>
           body (fst (detect e rx ip hs w)) = Result_json (assemble rx mime b c1 n1 r2 p)"
proof -
  from detect_200 [OF assms] obtain f mime b w0 where
    d: "detect e rx ip hs w =
          verify e rx ip f mime b (str_of (ROBOFLOW_MODEL1_URL e))
            (str_of (ROBOFLOW_MODEL2_URL e)) (str_of (ROBOFLOW_API_KEY e)) hs w0"
    by blast
  with assms have "status (fst (verify e rx ip f mime b (str_of (ROBOFLOW_MODEL1_URL e))
            (str_of (ROBOFLOW_MODEL2_URL e)) (str_of (ROBOFLOW_API_KEY e)) hs w0)) = 200"
    by simp
  from verify_200 [OF this] obtain c1 n1 w1 where
    v: "verify e rx ip f mime b (str_of (ROBOFLOW_MODEL1_URL e))
            (str_of (ROBOFLOW_MODEL2_URL e)) (str_of (ROBOFLOW_API_KEY e)) hs w0 =
        classify e rx ip f mime b (str_of (ROBOFLOW_MODEL2_URL e))
          (str_of (ROBOFLOW_API_KEY e)) c1 n1 hs w1"
    by blast
  with assms d have "status (fst (classify e rx ip f mime b (str_of (ROBOFLOW_MODEL2_URL e))
          (str_of (ROBOFLOW_API_KEY e)) c1 n1 hs w1)) = 200"
    by simp
  from classify_200 [OF this] obtain r2 p where
    "model2_reply rx = Json r2" "first_prediction r2 = Some p"
    "body (fst (classify e rx ip f mime b (str_of (ROBOFLOW_MODEL2_URL e))
          (str_of (ROBOFLOW_API_KEY e)) c1 n1 hs w1)) =
       Result_json (assemble rx mime b c1 n1 r2 p)"
    by blast
  with d v show ?thesis by (intro exI [of _ mime] exI [of _ b] exI [of _ c1] exI [of _ n1]
      exI [of _ r2] exI [of _ p]) simp
qed

lemma reference_error_message:
  "\<not> str_includes ''rateLimit is not defined'' ''maxFileSize''"
  "\<not> str_includes ''rateLimit is not defined'' ''Roboflow''"
  by code_simp+

section \<open>Rounding to a double\<close>

lemma pow2_pos: "0 < pow2 k"
  by (simp add: pow2_def)

lemma pow2_powi: "pow2 k = 2 powi k"
  by (simp add: pow2_def power_int_def field_simps)

lemma pow2_mono: "i \<le> j \<Longrightarrow> pow2 i \<le> pow2 j"
  by (simp add: pow2_powi power_int_increasing)

lemma round_half_even_error: "\<bar>of_int (round_half_even m) - m\<bar> \<le> 1 / 2"
proof -
  define f where "f = \<lfloor>m\<rfloor>"
  have lo: "of_int f \<le> m" and hi: "m < of_int f + 1" unfolding f_def by linarith+
  have "round_half_even m = f \<and> m - of_int f \<le> 1 / 2 \<or>
        round_half_even m = f + 1 \<and> 1 / 2 \<le> m - of_int f"
    unfolding round_half_even_def Let_def f_def [symmetric] by (auto split: if_splits)
  then show ?thesis using lo hi by auto
qed

lemma fl_error:
  assumes "fl x = Some v"
  shows "\<bar>v - x\<bar> \<le> pow2 (max (ilog2 \<bar>x\<bar> - 52) (- 1074)) / 2"
proof (cases "x = 0")
  case True
  with assms show ?thesis using pow2_pos [of "max (ilog2 \<bar>x\<bar> - 52) (- 1074)"]
    by (simp add: fl_def)
next
  case False
  define q where "q = max (ilog2 \<bar>x\<bar> - 52) (- 1074)"
  define n where "n = round_half_even (\<bar>x\<bar> / pow2 q)"
  have v: "v = (if x < 0 then - (of_int n * pow2 q) else of_int n * pow2 q)"
    using assms False by (auto simp: fl_def Let_def q_def n_def split: if_splits)
  have "\<bar>of_int n - \<bar>x\<bar> / pow2 q\<bar> \<le> 1 / 2"
    unfolding n_def by (rule round_half_even_error)
  then have "\<bar>of_int n - \<bar>x\<bar> / pow2 q\<bar> * pow2 q \<le> 1 / 2 * pow2 q"
    using pow2_pos [of q] by (simp add: mult_right_mono)
  moreover have "\<bar>of_int n - \<bar>x\<bar> / pow2 q\<bar> * pow2 q = \<bar>of_int n * pow2 q - \<bar>x\<bar>\<bar>"
  proof -
    have "\<bar>of_int n - \<bar>x\<bar> / pow2 q\<bar> * pow2 q = \<bar>(of_int n - \<bar>x\<bar> / pow2 q) * pow2 q\<bar>"
      using pow2_pos [of q] by (simp add: abs_mult)
    also have "(of_int n - \<bar>x\<bar> / pow2 q) * pow2 q = of_int n * pow2 q - \<bar>x\<bar>"
      using pow2_pos [of q] by (simp add: field_simps)
    finally show ?thesis .
  qed
  ultimately have "\<bar>of_int n * pow2 q - \<bar>x\<bar>\<bar> \<le> pow2 q / 2" by simp
  then have "\<bar>v - x\<bar> \<le> pow2 q / 2" unfolding v by (auto simp: abs_if split: if_splits)
  then show ?thesis by (simp add: q_def)
qed

lemma ilog2_lower:
  assumes "0 < a"
  shows "pow2 (ilog2 a) \<le> a"
proof -
  obtain p q where pq: "quotient_of a = (p, q)" by (cases "quotient_of a")
  then have q: "0 < q" by (rule quotient_of_denom_pos)
  have a: "a = of_int p / of_int q" using pq by (rule quotient_of_div)
  have p: "0 < p" using assms q a by (simp add: zero_less_divide_iff)
  define k where "k = bitlen p - bitlen q"
  show ?thesis
  proof (cases "pow2 k \<le> a")
    case True
    then show ?thesis by (simp add: ilog2_def pq k_def)
  next
    case False
    have bp: "1 \<le> bitlen p" and bq: "1 \<le> bitlen q"
      using p q by (simp_all add: bitlen_alt_def)
    have "(2::int) ^ nat (bitlen p - 1) \<le> p" using bitlen_bounds [OF p] by simp
    then have lp: "pow2 (bitlen p - 1) \<le> of_int p"
      using bp by (simp add: pow2_def)
    have "q < (2::int) ^ nat (bitlen q)" using bitlen_bounds [OF q] by simp
    then have uq: "of_int q \<le> pow2 (bitlen q)"
      using bq by (simp add: pow2_def)
    have "pow2 (k - 1) = pow2 (bitlen p - 1) / pow2 (bitlen q)"
      by (simp add: pow2_powi k_def power_int_diff)
    also have "\<dots> \<le> of_int p / pow2 (bitlen q)"
      using lp pow2_pos [of "bitlen q"] by (simp add: divide_right_mono)
    also have "\<dots> \<le> of_int p / of_int q"
      using uq p q by (simp add: divide_left_mono pow2_pos)
    finally have "pow2 (k - 1) \<le> a" by (simp add: a)
    with False show ?thesis by (simp add: ilog2_def pq k_def)
  qed
qed

lemma ilog2_less:
  assumes "0 < a" and "a < pow2 j"
  shows "ilog2 a < j"
proof (rule ccontr)
  assume "\<not> ilog2 a < j"
  then have "pow2 j \<le> pow2 (ilog2 a)" by (simp add: pow2_mono)
  with ilog2_lower [OF assms(1)] assms(2) show False by simp
qed

lemma fl_product_error:
  assumes "0 \<le> c" and "c \<le> 1" and "fl (c * 100) = Some v"
  shows "\<bar>v - c * 100\<bar> \<le> 1 / 2 ^ 47"
proof (cases "c = 0")
  case True
  with assms(3) show ?thesis by (simp add: fl_def)
next
  case False
  with assms(1) have pos: "0 < \<bar>c * 100\<bar>" by simp
  have "\<bar>c * 100\<bar> < pow2 7" using assms(1,2) by (simp add: pow2_def)
  from ilog2_less [OF pos this] have "max (ilog2 \<bar>c * 100\<bar> - 52) (- 1074) \<le> - 46" by simp
  then have "pow2 (max (ilog2 \<bar>c * 100\<bar> - 52) (- 1074)) \<le> pow2 (- 46)" by (rule pow2_mono)
  with fl_error [OF assms(3)] have "\<bar>v - c * 100\<bar> \<le> pow2 (- 46) / 2" by simp
  then show ?thesis by (simp add: pow2_def)
qed


lemma ilog2_zero: "ilog2 0 = - 2"
  by (simp add: ilog2_def pow2_def bitlen_alt_def)

lemma fl_small_finite:
  assumes "\<bar>x\<bar> < pow2 7"
  shows "\<exists>v. fl x = Some v"
proof (cases "x = 0")
  case True
  then show ?thesis by (simp add: fl_def)
next
  case False
  define q where "q = max (ilog2 \<bar>x\<bar> - 52) (- 1074)"
  define r where "r = of_int (round_half_even (\<bar>x\<bar> / pow2 q)) * pow2 q"
  have pos: "0 < \<bar>x\<bar>" using False by simp
  from ilog2_less [OF pos assms] have "q \<le> - 46" by (simp add: q_def)
  then have pq: "pow2 q \<le> pow2 (- 46)" by (rule pow2_mono)
  have "\<bar>of_int (round_half_even (\<bar>x\<bar> / pow2 q)) - \<bar>x\<bar> / pow2 q\<bar> \<le> 1 / 2"
    by (rule round_half_even_error)
  then have "of_int (round_half_even (\<bar>x\<bar> / pow2 q)) \<le> \<bar>x\<bar> / pow2 q + 1 / 2" by linarith
  then have "r \<le> (\<bar>x\<bar> / pow2 q + 1 / 2) * pow2 q"
    unfolding r_def using pow2_pos [of q] by (simp add: mult_right_mono)
  also have "\<dots> = \<bar>x\<bar> + pow2 q / 2" using pow2_pos [of q] by (simp add: field_simps)
  also have "\<dots> < pow2 7 + pow2 (- 46) / 2" using assms pq by simp
  also have "\<dots> < pow2 1024" by (simp add: pow2_def)
  finally have rlt: "r < pow2 1024" .
  have "ilog2 r < 1024"
  proof (cases "0 < r")
    case True
    from ilog2_less [OF True rlt] show ?thesis .
  next
    case False
    have "0 \<le> \<bar>x\<bar> / pow2 q" using pow2_pos [of q] by simp
    then have "0 \<le> \<lfloor>\<bar>x\<bar> / pow2 q\<rfloor>" by simp
    then have "0 \<le> round_half_even (\<bar>x\<bar> / pow2 q)"
      by (simp add: round_half_even_def Let_def)
    then have "0 \<le> r" unfolding r_def using pow2_pos [of q] by simp
    with False have "r = 0" by simp
    then show ?thesis by (simp add: ilog2_zero)
  qed
  then show ?thesis using False by (simp add: fl_def Let_def q_def r_def)
qed

lemma percent_of_unit:
  assumes "0 \<le> c" and "c \<le> 1"
  shows "\<exists>n. percent (Some c) = Some n \<and> \<bar>of_int n - c * 100\<bar> \<le> 1 / 2 + 1 / 2 ^ 47"
proof -
  have "\<bar>c * 100\<bar> < pow2 7" using assms by (simp add: pow2_def)
  from fl_small_finite [OF this] obtain v where v: "fl (c * 100) = Some v" ..
  have "\<bar>of_int (Math_round v) - v\<bar> \<le> 1 / 2"
    unfolding Math_round_def by linarith
  moreover have "\<bar>v - c * 100\<bar> \<le> 1 / 2 ^ 47" using assms v by (rule fl_product_error)
  ultimately have "\<bar>of_int (Math_round v) - c * 100\<bar> \<le> 1 / 2 + 1 / 2 ^ 47" by linarith
  then show ?thesis using v by (simp add: percent_def num_mul_def)
qed

section \<open>The claims about the handler\<close>

text \<open>
  C1 fails on the code. Whenever the top verification prediction has a label that
  contains "calamansi" without being equal to it once lower-cased, and a confidence of at
  least 0.5, so that it passes the gate of the specification, line 416 rejects it: the
  verification stage answers 400 "validation_error" reporting the label and the
  fractional confidence, and the disease model is not called. The containment check of
  lines 443 to 445, which does what the specification says, is never reached with such a
  label. (The threshold itself is as claimed: line 416 compares the fraction with 0.5.)
\<close>

theorem containing_label_rejected:
  assumes "model1_reply rx = Json r" and "top_prediction (engine_sort rx) r = Some p"
    and "pred_class p = Some c" and "pred_confidence p = Some v"
    and "spec_gate c v" and "toLowerCase c \<noteq> ''calamansi''"
  shows "verify e rx ip f mime b u1 u2 k hs w =
     (respond hs 400
        (Rejected_json ''Image does not appear to be a calamansi plant.'' ''validation_error''
           (Some c) (Some v)),
      deleteImageFile (Some (filepath f)) (w\<lparr>fetched := fetched w @ [u1 @ ''?api_key='' @ k]\<rparr>))"
proof -
  have "first_check (top_prediction (engine_sort rx) r) = Check_rejects"
    using assms(2,3,6) by (simp add: first_check_def)
  from verify_rejects [OF assms(1) this] show ?thesis by (simp add: assms(2,3,4))
qed

text \<open>
  The failing request: the verifier answers "Calamansi Leaf" at 0.9. The verification
  stage and the handler body answer 400; the handler as a whole answers 500
  "server_error" (see C4). Neither lets the request pass.
\<close>

theorem containing_label_rejected_witness:
  "fst (verify example_env
          (example_reactions (listed [labelled ''Calamansi Leaf'' (9 / 10)]) example_diseases)
          ''203.0.113.7'' example_upload ''image/jpeg'' ''QUJD''
          ''https://models.example/verify'' ''https://models.example/disease'' ''key'' []
          example_world) =
     respond [] 400
       (Rejected_json ''Image does not appear to be a calamansi plant.'' ''validation_error''
          (Some ''Calamansi Leaf'') (Some (dbl (9 / 10)))) \<and>
   fst (detect example_env
          (example_reactions (listed [labelled ''Calamansi Leaf'' (9 / 10)]) example_diseases)
          ''203.0.113.7'' [] example_world) =
     respond [] 400
       (Rejected_json ''Image does not appear to be a calamansi plant.'' ''validation_error''
          (Some ''Calamansi Leaf'') (Some (dbl (9 / 10)))) \<and>
   fetched (snd (detect example_env
          (example_reactions (listed [labelled ''Calamansi Leaf'' (9 / 10)]) example_diseases)
          ''203.0.113.7'' [] example_world)) =
     [''https://models.example/verify?api_key=key''] \<and>
   status (fst (handler example_env
          (example_reactions (listed [labelled ''Calamansi Leaf'' (9 / 10)]) example_diseases)
          example_request example_world)) = 500 \<and>
   error_type (body (fst (handler example_env
          (example_reactions (listed [labelled ''Calamansi Leaf'' (9 / 10)]) example_diseases)
          example_request example_world))) = Some ''server_error''"
proof -
  let ?p = "labelled ''Calamansi Leaf'' (9 / 10)"
  let ?rx = "example_reactions (listed [?p]) example_diseases"
  have h1: "model1_reply ?rx = Json (listed [?p])" by (simp add: example_reactions_def)
  have h2: "top_prediction (engine_sort ?rx) (listed [?p]) = Some ?p"
    by (simp add: top_prediction_def listed_def sort_desc_def labelled_def)
  have h3: "pred_class ?p = Some ''Calamansi Leaf''" by (simp add: labelled_def)
  have h4: "pred_confidence ?p = Some (dbl (9 / 10))" by (simp add: labelled_def)
  have h5: "spec_gate ''Calamansi Leaf'' (dbl (9 / 10))" by code_simp
  have h6: "toLowerCase ''Calamansi Leaf'' \<noteq> ''calamansi''" by code_simp
  have a: "fst (verify example_env ?rx ''203.0.113.7'' example_upload ''image/jpeg'' ''QUJD''
          ''https://models.example/verify'' ''https://models.example/disease'' ''key'' []
          example_world) =
     respond [] 400
       (Rejected_json ''Image does not appear to be a calamansi plant.'' ''validation_error''
          (Some ''Calamansi Leaf'') (Some (dbl (9 / 10))))"
    by (simp add: containing_label_rejected [OF h1 h2 h3 h4 h5 h6])
  have b: "fst (detect example_env ?rx ''203.0.113.7'' [] example_world) =
     respond [] 400
       (Rejected_json ''Image does not appear to be a calamansi plant.'' ''validation_error''
          (Some ''Calamansi Leaf'') (Some (dbl (9 / 10))))"
    by code_simp
  have c: "fetched (snd (detect example_env ?rx ''203.0.113.7'' [] example_world)) =
     [''https://models.example/verify?api_key=key'']"
    by code_simp
  have d: "status (fst (handler example_env ?rx example_request example_world)) = 500"
    by code_simp
  have e: "error_type (body (fst (handler example_env ?rx example_request example_world))) =
     Some ''server_error''"
    by code_simp
  show ?thesis using a b c d e by (simp only: simp_thms)
qed



text \<open>
  C3 fails on the code. Whenever the verification model answers without any prediction
  (no \<open>predictions\<close>, or an empty array), \<open>bestPrediction\<close> is undefined and line 416
  answers 400 with type "validation_error", after deleting the temporary file. The answer
  500 "model_error" of lines 431 to 438 is never given: whatever passes line 416 has a
  first prediction.
\<close>

theorem no_predictions_rejected_as_validation_error:
  assumes "model1_reply rx = Json r"
    and "predictions r = None \<or> predictions r = Some []"
  shows "verify e rx ip f mime b u1 u2 k hs w =
     (respond hs 400
        (Rejected_json ''Image does not appear to be a calamansi plant.'' ''validation_error''
           None None),
      deleteImageFile (Some (filepath f)) (w\<lparr>fetched := fetched w @ [u1 @ ''?api_key='' @ k]\<rparr>))"
proof -
  have none: "top_prediction (engine_sort rx) r = None"
    using assms(2) by (auto simp: top_prediction_def sort_desc_def)
  then have "first_check (top_prediction (engine_sort rx) r) = Check_rejects"
    by (simp add: first_check_def)
  from verify_rejects [OF assms(1) this] show ?thesis by (simp add: none)
qed

text \<open>
  The failing request: the verification model answers \<open>{"predictions": []}\<close>. The
  verification stage and the handler body answer 400 "validation_error", not
  "model_error"; the handler as a whole answers 500 "server_error" (see C4), not
  "model_error" either.
\<close>

theorem no_predictions_rejected_as_validation_error_witness:
  "fst (verify example_env (example_reactions (listed []) example_diseases) ''203.0.113.7''
          example_upload ''image/jpeg'' ''QUJD'' ''https://models.example/verify''
          ''https://models.example/disease'' ''key'' [] example_world) =
     respond [] 400
       (Rejected_json ''Image does not appear to be a calamansi plant.'' ''validation_error''
          None None) \<and>
   fst (detect example_env (example_reactions (listed []) example_diseases)
          ''203.0.113.7'' [] example_world) =
     respond [] 400
       (Rejected_json ''Image does not appear to be a calamansi plant.'' ''validation_error''
          None None) \<and>
   error_type (body (fst (detect example_env (example_reactions (listed []) example_diseases)
          ''203.0.113.7'' [] example_world))) \<noteq> Some ''model_error'' \<and>
   status (fst (handler example_env (example_reactions (listed []) example_diseases)
          example_request example_world)) = 500 \<and>
   error_type (body (fst (handler example_env (example_reactions (listed []) example_diseases)
          example_request example_world))) = Some ''server_error''"
proof -
  have h1: "model1_reply (example_reactions (listed []) example_diseases) = Json (listed [])"
    by (simp add: example_reactions_def)
  have h2: "predictions (listed []) = None \<or> predictions (listed []) = Some []"
    by (simp add: listed_def)
  have a: "fst (verify example_env (example_reactions (listed []) example_diseases)
          ''203.0.113.7'' example_upload ''image/jpeg'' ''QUJD'' ''https://models.example/verify''
          ''https://models.example/disease'' ''key'' [] example_world) =
     respond [] 400
       (Rejected_json ''Image does not appear to be a calamansi plant.'' ''validation_error''
          None None)"
    by (simp add: no_predictions_rejected_as_validation_error [OF h1 h2])
  have b: "fst (detect example_env (example_reactions (listed []) example_diseases)
          ''203.0.113.7'' [] example_world) =
     respond [] 400
       (Rejected_json ''Image does not appear to be a calamansi plant.'' ''validation_error''
          None None)"
    by code_simp
  have c: "error_type (body (fst (detect example_env
          (example_reactions (listed []) example_diseases)
          ''203.0.113.7'' [] example_world))) \<noteq> Some ''model_error''"
    by code_simp
  have d: "status (fst (handler example_env (example_reactions (listed []) example_diseases)
          example_request example_world)) = 500"
    by code_simp
  have e: "error_type (body (fst (handler example_env
          (example_reactions (listed []) example_diseases)
          example_request example_world))) = Some ''server_error''"
    by code_simp
  show ?thesis using a b c d e by (simp only: simp_thms)
qed

text \<open>
  C4 fails on the code. With \<open>RATE_LIMIT_PAUSED\<close> set to "true" every POST request is
  answered with 500 "server_error" and nothing else happens: no quota is consumed, no
  file is parsed or validated, no model is called. Line 344 reads \<open>rateLimit\<close> outside the
  block that declares it, and the ReferenceError goes to the \<open>catch\<close>.
\<close>

theorem paused_rate_limit_request_fails:
  assumes "req_method req = ''POST''" and "RATE_LIMIT_PAUSED e = Some ''true''"
  shows "status (fst (handler e rx req w)) = 500 \<and>
         error_type (body (fst (handler e rx req w))) = Some ''server_error'' \<and>
         snd (handler e rx req w) = w"
  using assms
  by (simp add: handler_def Let_def rateLimit_outside_block_def on_error_def truthy_def
        reference_error_message respond_def)

text \<open>
  The failing request: a POST that the handler body of lines 355 to 525 would answer with
  200 is answered with 500 by the handler, and the world is as it was.
\<close>

theorem paused_rate_limit_request_fails_witness:
  "fst (handler example_env
          (example_reactions (listed [labelled ''calamansi'' (92 / 100)]) example_diseases)
          example_request example_world) =
     respond [(''Access-Control-Allow-Methods'', Text ''POST, OPTIONS''),
              (''Access-Control-Allow-Headers'', Text ''Content-Type'')] 500
       (Server_error_json ''An unexpected error occurred during detection'' ''server_error''
          None) \<and>
   snd (handler example_env
          (example_reactions (listed [labelled ''calamansi'' (92 / 100)]) example_diseases)
          example_request example_world) = example_world \<and>
   status (fst (detect example_env
          (example_reactions (listed [labelled ''calamansi'' (92 / 100)]) example_diseases)
          (getClientIP example_request) [] example_world)) = 200"
proof -
  let ?rx = "example_reactions (listed [labelled ''calamansi'' (92 / 100)]) example_diseases"
  have h1: "req_method example_request = ''POST''" by (simp add: example_request_def)
  have h2: "RATE_LIMIT_PAUSED example_env = Some ''true''" by (simp add: example_env_def)
  have a: "fst (handler example_env ?rx example_request example_world) =
     respond [(''Access-Control-Allow-Methods'', Text ''POST, OPTIONS''),
              (''Access-Control-Allow-Headers'', Text ''Content-Type'')] 500
       (Server_error_json ''An unexpected error occurred during detection'' ''server_error''
          None)"
    by code_simp
  have b: "snd (handler example_env ?rx example_request example_world) = example_world"
    using paused_rate_limit_request_fails [OF h1 h2] by simp
  have c: "status (fst (detect example_env ?rx (getClientIP example_request) []
            example_world)) = 200"
    by code_simp
  show ?thesis using a b c by (simp only: simp_thms)
qed

text \<open>
  C6 fails on the code. When the verification model answers with a single \<open>top\<close> object
  and no \<open>predictions\<close>, then, even if the label and the confidence of that object satisfy
  the gate, \<open>bestPrediction\<close> is undefined and line 416 answers 400 "validation_error";
  only the verification model has been called. The fallback to \<open>model1Response.top\<close> of
  line 431 is never reached.
\<close>

theorem single_top_object_rejected:
  assumes "model1_reply rx = Json r" and "predictions r = None" and "resp_top r = Some t"
    and "pred_class t = Some c" and "pred_confidence t = Some v" and "spec_gate c v"
  shows "fst (verify e rx ip f mime b u1 u2 k hs w) =
           respond hs 400
             (Rejected_json ''Image does not appear to be a calamansi plant.''
                ''validation_error'' None None) \<and>
         fetched (snd (verify e rx ip f mime b u1 u2 k hs w)) =
           fetched w @ [u1 @ ''?api_key='' @ k]"
proof -
  have none: "top_prediction (engine_sort rx) r = None"
    using assms(2) by (simp add: top_prediction_def)
  then have "first_check (top_prediction (engine_sort rx) r) = Check_rejects"
    by (simp add: first_check_def)
  from verify_rejects [OF assms(1) this] show ?thesis
    by (simp add: none deleteImageFile_frame)
qed

text \<open>
  The failing request: the verification model answers with the single top object
  "calamansi" at 0.9.
\<close>

theorem single_top_object_rejected_witness:
  "fst (verify example_env
          (example_reactions (top_only (labelled ''calamansi'' (9 / 10))) example_diseases)
          ''203.0.113.7'' example_upload ''image/jpeg'' ''QUJD''
          ''https://models.example/verify'' ''https://models.example/disease'' ''key'' []
          example_world) =
     respond [] 400
       (Rejected_json ''Image does not appear to be a calamansi plant.'' ''validation_error''
          None None) \<and>
   fst (detect example_env
          (example_reactions (top_only (labelled ''calamansi'' (9 / 10))) example_diseases)
          ''203.0.113.7'' [] example_world) =
     respond [] 400
       (Rejected_json ''Image does not appear to be a calamansi plant.'' ''validation_error''
          None None) \<and>
   fetched (snd (detect example_env
          (example_reactions (top_only (labelled ''calamansi'' (9 / 10))) example_diseases)
          ''203.0.113.7'' [] example_world)) =
     [''https://models.example/verify?api_key=key'']"
proof -
  let ?t = "labelled ''calamansi'' (9 / 10)"
  let ?rx = "example_reactions (top_only ?t) example_diseases"
  have h1: "model1_reply ?rx = Json (top_only ?t)" by (simp add: example_reactions_def)
  have h2: "predictions (top_only ?t) = None" by (simp add: top_only_def)
  have h3: "resp_top (top_only ?t) = Some ?t" by (simp add: top_only_def)
  have h4: "pred_class ?t = Some ''calamansi''" by (simp add: labelled_def)
  have h5: "pred_confidence ?t = Some (dbl (9 / 10))" by (simp add: labelled_def)
  have h6: "spec_gate ''calamansi'' (dbl (9 / 10))" by code_simp
  have a: "fst (verify example_env ?rx ''203.0.113.7'' example_upload ''image/jpeg'' ''QUJD''
          ''https://models.example/verify'' ''https://models.example/disease'' ''key'' []
          example_world) =
     respond [] 400
       (Rejected_json ''Image does not appear to be a calamansi plant.'' ''validation_error''
          None None)"
    using single_top_object_rejected [OF h1 h2 h3 h4 h5 h6] by simp
  have b: "fst (detect example_env ?rx ''203.0.113.7'' [] example_world) =
     respond [] 400
       (Rejected_json ''Image does not appear to be a calamansi plant.'' ''validation_error''
          None None)"
    by code_simp
  have c: "fetched (snd (detect example_env ?rx ''203.0.113.7'' [] example_world)) =
     [''https://models.example/verify?api_key=key'']"
    by code_simp
  show ?thesis using a b c by (simp only: simp_thms)
qed

text \<open>
  C7 fails on the code. Every POST request, and so every request whose top verification
  prediction would fail the gate, is answered by the handler with 500 "server_error", not
  with 400 "validation_error": line 344 throws before the request is parsed (the defect
  of C4). No model is called and the temporary directory is not touched.
\<close>

theorem gate_failure_answered_with_500:
  assumes "req_method req = ''POST''"
  shows "status (fst (handler e rx req w)) = 500 \<and>
         error_type (body (fst (handler e rx req w))) = Some ''server_error'' \<and>
         fetched (snd (handler e rx req w)) = fetched w \<and>
         on_disk (snd (handler e rx req w)) = on_disk w"
  using assms
  by (simp add: handler_def Let_def rateLimit_outside_block_def on_error_def truthy_def
        reference_error_message respond_def split_def)

text \<open>
  The failing request: the verifier would answer "tomato" at 0.95. The handler answers
  500 "server_error". The handler body of lines 355 to 555, taken alone, does what the
  claim says for this request: 400 "validation_error", the temporary file deleted, one call
  only, to the verification model.
\<close>

theorem gate_failure_answered_with_500_witness:
  "status (fst (handler example_env
       (example_reactions (listed [labelled ''tomato'' (95 / 100)]) example_diseases)
       example_request example_world)) = 500 \<and>
   error_type (body (fst (handler example_env
       (example_reactions (listed [labelled ''tomato'' (95 / 100)]) example_diseases)
       example_request example_world))) = Some ''server_error'' \<and>
   fetched (snd (handler example_env
       (example_reactions (listed [labelled ''tomato'' (95 / 100)]) example_diseases)
       example_request example_world)) = [] \<and>
   status (fst (detect example_env
       (example_reactions (listed [labelled ''tomato'' (95 / 100)]) example_diseases)
       ''203.0.113.7'' [] example_world)) = 400 \<and>
   error_type (body (fst (detect example_env
       (example_reactions (listed [labelled ''tomato'' (95 / 100)]) example_diseases)
       ''203.0.113.7'' [] example_world))) = Some ''validation_error'' \<and>
   fetched (snd (detect example_env
       (example_reactions (listed [labelled ''tomato'' (95 / 100)]) example_diseases)
       ''203.0.113.7'' [] example_world)) = [''https://models.example/verify?api_key=key''] \<and>
   on_disk (snd (detect example_env
       (example_reactions (listed [labelled ''tomato'' (95 / 100)]) example_diseases)
       ''203.0.113.7'' [] example_world)) = {}"
proof -
  let ?rx = "example_reactions (listed [labelled ''tomato'' (95 / 100)]) example_diseases"
  have h: "req_method example_request = ''POST''" by (simp add: example_request_def)
  have w0: "fetched example_world = []" by (simp add: example_world_def)
  from gate_failure_answered_with_500 [OF h, of example_env ?rx example_world]
  have a: "status (fst (handler example_env ?rx example_request example_world)) = 500"
    and b: "error_type (body (fst (handler example_env ?rx example_request example_world))) =
      Some ''server_error''"
    and c: "fetched (snd (handler example_env ?rx example_request example_world)) = []"
    by (simp_all add: w0)
  have d: "status (fst (detect example_env ?rx ''203.0.113.7'' [] example_world)) = 400"
    by code_simp
  have e: "error_type (body (fst (detect example_env ?rx ''203.0.113.7'' [] example_world))) =
      Some ''validation_error''"
    by code_simp
  have f: "fetched (snd (detect example_env ?rx ''203.0.113.7'' [] example_world)) =
      [''https://models.example/verify?api_key=key'']"
    by code_simp
  have g: "on_disk (snd (detect example_env ?rx ''203.0.113.7'' [] example_world)) = {}"
    by code_simp
  show ?thesis using a b c d e f g by (simp only: simp_thms)
qed

section \<open>The assembled result\<close>

lemma percent_nearest:
  assumes "fl (c * 100) = Some v"
  shows "\<exists>n. percent (Some c) = Some n \<and> \<bar>of_int n - v\<bar> \<le> 1 / 2"
  using assms Math_round_nearest [of v] by (simp add: percent_def num_mul_def)

lemma to_view_all2:
  "list_all2 (\<lambda>v q. view_class v = pred_class q \<and>
                     view_confidence v = percent (pred_confidence q) \<and>
                     view_boundingBox v = None)
     (map to_view qs) qs"
  by (induction qs) (simp_all add: to_view_def)

text \<open>
  C8. For every non-empty list of predictions of the disease model, the stage answers 200
  with a payload whose primary result is the first prediction as the provider returned it
  (no sorting), and whose \<open>allPredictions\<close> is the whole list in the provider's order and
  of the same length, each label passed through. Each confidence \<open>c\<close> becomes
  \<open>Math.round(c * 100)\<close>: the integer nearest to the double product (a tie goes up), which
  for a confidence between 0 and 1 is within two to the power -47 of being nearest to the exact
  product. A missing confidence gives \<open>null\<close>.
\<close>

theorem disease_stage_assembly:
  assumes "model2_reply rx = Json r2" and "predictions r2 = Some (p # ps)"
  shows "\<exists>d. fst (classify e rx ip f mime b u2 k c1 n1 hs w) = respond hs 200 (Result_json d) \<and>
           m2_class (model2 d) = pred_class p \<and>
           m2_confidence (model2 d) = percent (pred_confidence p) \<and>
           allPredictions d = map to_view (p # ps) \<and>
           length (allPredictions d) = length (p # ps) \<and>
           list_all2 (\<lambda>v q. view_class v = pred_class q \<and>
                             view_confidence v = percent (pred_confidence q) \<and>
                             view_boundingBox v = None)
             (allPredictions d) (p # ps) \<and>
           (\<forall>c v. fl (c * 100) = Some v \<longrightarrow>
              (\<exists>n. percent (Some c) = Some n \<and> \<bar>of_int n - v\<bar> \<le> 1 / 2)) \<and>
           (\<forall>c. 0 \<le> c \<longrightarrow> c \<le> 1 \<longrightarrow>
              (\<exists>n. percent (Some c) = Some n \<and>
                   \<bar>of_int n - c * 100\<bar> \<le> 1 / 2 + 1 / 2 ^ 47))"
proof -
  let ?d = "assemble rx mime b c1 n1 r2 p"
  have fp: "first_prediction r2 = Some p" using assms(2) by (simp add: first_prediction_def)
  have all: "allPredictions ?d = map to_view (p # ps)"
    using assms(2) by (simp add: assemble_def Let_def)
  have "fst (classify e rx ip f mime b u2 k c1 n1 hs w) = respond hs 200 (Result_json ?d)"
    using assms(1) fp by (rule classify_Json)
  moreover have "m2_class (model2 ?d) = pred_class p"
    and "m2_confidence (model2 ?d) = percent (pred_confidence p)"
    by (simp_all add: assemble_def Let_def)
  moreover have "list_all2 (\<lambda>v q. view_class v = pred_class q \<and>
                             view_confidence v = percent (pred_confidence q) \<and>
                             view_boundingBox v = None)
             (allPredictions ?d) (p # ps)"
    unfolding all by (rule to_view_all2)
  moreover have "\<forall>c v. fl (c * 100) = Some v \<longrightarrow>
              (\<exists>n. percent (Some c) = Some n \<and> \<bar>of_int n - v\<bar> \<le> 1 / 2)"
    using percent_nearest by blast
  moreover have "\<forall>c. 0 \<le> c \<longrightarrow> c \<le> 1 \<longrightarrow>
              (\<exists>n. percent (Some c) = Some n \<and>
                   \<bar>of_int n - c * 100\<bar> \<le> 1 / 2 + 1 / 2 ^ 47)"
    using percent_of_unit by blast
  ultimately show ?thesis using all
    by (intro exI [of _ ?d]) simp
qed

text \<open>
  The scenario of the specification: "black spot" at 0.81 and "healthy calamansi" at 0.10
  give a primary result "black spot" at 81 and two entries, in that order, at 81 and 10.
  At the doubles of 0.155 and 0.575 the rounded products are 16 and 57.
\<close>

theorem disease_stage_assembly_witness:
  "\<exists>d. fst (classify example_env
             (example_reactions (listed [labelled ''calamansi'' (92 / 100)]) example_diseases)
             ''203.0.113.7'' example_upload ''image/jpeg'' ''QUJD''
             ''https://models.example/disease'' ''key'' ''calamansi'' (Some 92) []
             example_world) =
          respond [] 200 (Result_json d) \<and>
        m2_class (model2 d) = Some ''black spot'' \<and> m2_confidence (model2 d) = Some 81 \<and>
        map view_class (allPredictions d) = [Some ''black spot'', Some ''healthy calamansi''] \<and>
        map view_confidence (allPredictions d) = [Some 81, Some 10] \<and>
        percent (Some (dbl (155 / 1000))) = Some 16 \<and>
        percent (Some (dbl (575 / 1000))) = Some 57"
proof -
  let ?p = "located ''black spot'' (81 / 100) 320 320 100 100"
  let ?q = "located ''healthy calamansi'' (10 / 100) 100 120 40 60"
  let ?rx = "example_reactions (listed [labelled ''calamansi'' (92 / 100)]) example_diseases"
  have h1: "model2_reply ?rx = Json example_diseases" by (simp add: example_reactions_def)
  have h2: "predictions example_diseases = Some (?p # [?q])"
    by (simp add: example_diseases_def listed_def)
  have r1: "percent (pred_confidence ?p) = Some 81" by code_simp
  have v: "map view_class (map to_view (?p # [?q])) =
             [Some ''black spot'', Some ''healthy calamansi'']"
    "map view_confidence (map to_view (?p # [?q])) = [Some 81, Some 10]" by code_simp+
  have c: "pred_class ?p = Some ''black spot''" by (simp add: located_def)
  have e: "percent (Some (dbl (155 / 1000))) = Some 16"
    "percent (Some (dbl (575 / 1000))) = Some 57" by code_simp+
  from disease_stage_assembly [OF h1 h2, of example_env "''203.0.113.7''" example_upload
      "''image/jpeg''" "''QUJD''" "''https://models.example/disease''" "''key''"
      "''calamansi''" "Some 92" "[]" example_world]
  obtain d where
    "fst (classify example_env ?rx ''203.0.113.7'' example_upload ''image/jpeg'' ''QUJD''
            ''https://models.example/disease'' ''key'' ''calamansi'' (Some 92) []
            example_world) =
       respond [] 200 (Result_json d)"
    "m2_class (model2 d) = pred_class ?p"
    "m2_confidence (model2 d) = percent (pred_confidence ?p)"
    "allPredictions d = map to_view (?p # [?q])"
    by blast
  then show ?thesis using r1 v c e by (intro exI [of _ d]) (simp only: simp_thms)
qed

section \<open>The renderer\<close>

lemma draw_boxes_nth:
  assumes "i < length preds"
    and "\<forall>j < i. view_boundingBox (preds ! j) \<noteq> None \<and> view_class (preds ! j) \<noteq> None"
    and "view_boundingBox (preds ! i) = Some bb"
  shows "i < length (fst (draw_boxes sx sy n preds)) \<and>
         fst (draw_boxes sx sy n preds) ! i = box_rect sx sy (n + i) bb"
  using assms
proof (induction preds arbitrary: n i)
  case Nil
  then show ?case by simp
next
  case (Cons a preds)
  show ?case
  proof (cases i)
    case 0
    with Cons.prems(3) have ab: "view_boundingBox a = Some bb" by simp
    show ?thesis using 0 ab by (simp add: split_def Let_def split: option.splits)
  next
    case (Suc j)
    from Cons.prems(2) Suc have "view_boundingBox a \<noteq> None \<and> view_class a \<noteq> None"
      by (auto dest: spec [of _ 0])
    then obtain ab ac where ab: "view_boundingBox a = Some ab" and ac: "view_class a = Some ac"
      by auto
    have j: "j < length preds" using Cons.prems(1) Suc by simp
    have prev: "\<forall>l < j. view_boundingBox (preds ! l) \<noteq> None \<and> view_class (preds ! l) \<noteq> None"
    proof (intro allI impI)
      fix l assume "l < j"
      then have "Suc l < i" using Suc by simp
      with Cons.prems(2) have "view_boundingBox ((a # preds) ! Suc l) \<noteq> None \<and>
          view_class ((a # preds) ! Suc l) \<noteq> None" by blast
      then show "view_boundingBox (preds ! l) \<noteq> None \<and> view_class (preds ! l) \<noteq> None"
        by simp
    qed
    have bbj: "view_boundingBox (preds ! j) = Some bb" using Cons.prems(3) Suc by simp
    note IH = Cons.IH [OF j prev bbj, of "Suc n"]
    have unf: "draw_boxes sx sy n (a # preds) =
        (box_rect sx sy n ab # fst (draw_boxes sx sy (Suc n) preds),
         snd (draw_boxes sx sy (Suc n) preds))"
      by (simp add: ab ac split_def Let_def)
    show ?thesis using IH Suc by (simp add: unf del: draw_boxes.simps)
  qed
qed

text \<open>
  C9. For every prediction of the list drawn that has a centre-and-size box, and that the
  \<open>forEach\<close> reaches (the predictions before it have a box and a class), the rectangle
  stroked for it has its top-left corner at
  \<open>((centerX - width / 2) * scaleX, (centerY - height / 2) * scaleY)\<close> and the size
  \<open>(width * scaleX, height * scaleY)\<close>, where the scale is the displayed dimension divided
  by the model-reported one, per axis, every operation being the one of double arithmetic.
\<close>

theorem renderer_geometry:
  assumes "i < length preds"
    and "\<forall>j < i. view_boundingBox (preds ! j) \<noteq> None \<and> view_class (preds ! j) \<noteq> None"
    and "view_boundingBox (preds ! i) =
           Some \<lparr>box_x = Some cx, box_y = Some cy, box_width = Some bw, box_height = Some bh\<rparr>"
  shows "i < length (fst (drawImageWithBoundingBoxes img_width img_height preds
                originalWidth originalHeight)) \<and>
         fst (drawImageWithBoundingBoxes img_width img_height preds
                originalWidth originalHeight) ! i =
           \<lparr>rect_x = num_mul (num_sub (Some cx) (num_div (Some bw) 2))
                       (num_div (Some img_width) originalWidth),
            rect_y = num_mul (num_sub (Some cy) (num_div (Some bh) 2))
                       (num_div (Some img_height) originalHeight),
            rect_width = num_mul (Some bw) (num_div (Some img_width) originalWidth),
            rect_height = num_mul (Some bh) (num_div (Some img_height) originalHeight),
            rect_color = boxColors ! (i mod 6)\<rparr>"
  using draw_boxes_nth [OF assms, of "num_div (Some img_width) originalWidth"
      "num_div (Some img_height) originalHeight" 0]
  by (simp add: drawImageWithBoundingBoxes_def Let_def box_rect_def boxColors_def)

text \<open>
  The scenario of the specification: model dimensions 640 by 640, displayed 1280 by 1280,
  centre (320, 320), size (100, 100): top-left (540, 540), size (200, 200). And a
  rectangle that is stroked although its prediction has no class and the next one no box:
  width 2 at scale 100 / 3 is twice the double of 100 / 3.
\<close>

theorem renderer_geometry_witness:
  "fst (drawImageWithBoundingBoxes 1280 1280
          [\<lparr>view_class = Some ''black spot'', view_confidence = Some 81,
            view_boundingBox = Some \<lparr>box_x = Some 320, box_y = Some 320,
                                     box_width = Some 100, box_height = Some 100\<rparr>\<rparr>]
          640 640) ! 0 =
     \<lparr>rect_x = Some 540, rect_y = Some 540, rect_width = Some 200, rect_height = Some 200,
      rect_color = ''#00FF00''\<rparr> \<and>
   rect_width (fst (drawImageWithBoundingBoxes 100 100
          [\<lparr>view_class = None, view_confidence = None,
            view_boundingBox = Some \<lparr>box_x = Some 10, box_y = Some 10,
                                     box_width = Some 2, box_height = Some 2\<rparr>\<rparr>,
           \<lparr>view_class = Some ''scab'', view_confidence = Some 7, view_boundingBox = None\<rparr>]
          3 3) ! 0) = Some (2 * dbl (100 / 3))"
proof -
  let ?a = "\<lparr>view_class = Some ''black spot'', view_confidence = Some 81,
            view_boundingBox = Some \<lparr>box_x = Some 320, box_y = Some 320,
                                     box_width = Some 100, box_height = Some 100\<rparr>\<rparr>"
  let ?b = "\<lparr>view_class = None, view_confidence = None,
            view_boundingBox = Some \<lparr>box_x = Some 10, box_y = Some 10,
                                     box_width = Some 2, box_height = Some 2\<rparr>\<rparr>"
  let ?c = "\<lparr>view_class = Some ''scab'', view_confidence = Some 7, view_boundingBox = None\<rparr>"
  have s1: "num_mul (num_sub (Some 320) (num_div (Some 100) 2)) (num_div (Some 1280) 640) =
      Some 540" by code_simp
  have s2: "num_mul (Some 100) (num_div (Some 1280) 640) = Some 200" by code_simp
  have s3: "num_mul (Some 2) (num_div (Some 100) 3) = Some (2 * dbl (100 / 3))" by code_simp
  have a: "fst (drawImageWithBoundingBoxes 1280 1280 [?a] 640 640) ! 0 =
     \<lparr>rect_x = Some 540, rect_y = Some 540, rect_width = Some 200, rect_height = Some 200,
      rect_color = ''#00FF00''\<rparr>"
    using renderer_geometry [of 0 "[?a]" 320 320 100 100 1280 1280 640 640]
    by (simp add: s1 s2 boxColors_def)
  have b: "rect_width (fst (drawImageWithBoundingBoxes 100 100 [?b, ?c] 3 3) ! 0) =
      Some (2 * dbl (100 / 3))"
    using renderer_geometry [of 0 "[?b, ?c]" 10 10 2 2 100 100 3 3]
    by (simp add: s3)
  show ?thesis using a b by (simp only: simp_thms)
qed

section \<open>What the payload carries\<close>

text \<open>
  C10. In every 200 answer of the handler body, each element of \<open>allPredictions\<close> carries
  the label and the rounded percentage of one prediction of the disease model, in order,
  and no bounding box; the box is on the primary result \<open>model2.boundingBox\<close> only. The
  result page draws from \<open>allPredictions\<close> and reads \<open>boundingBox.x\<close> of each element, so
  drawing such a payload stops at the first element with a TypeError and no rectangle.
\<close>

theorem allPredictions_without_boxes:
  assumes "status (fst (detect e rx ip hs w)) = 200"
  shows "\<exists>d r2 p ps.
           body (fst (detect e rx ip hs w)) = Result_json d \<and>
           model2_reply rx = Json r2 \<and> predictions r2 = Some (p # ps) \<and>
           allPredictions d =
             map (\<lambda>q. \<lparr>view_class = pred_class q,
                        view_confidence = percent (pred_confidence q),
                        view_boundingBox = None\<rparr>) (p # ps) \<and>
           (\<forall>v \<in> set (allPredictions d). view_boundingBox v = None) \<and>
           m2_boundingBox (model2 d) =
             \<lparr>box_x = pred_x p, box_y = pred_y p, box_width = pred_width p,
              box_height = pred_height p\<rparr> \<and>
           drawImageWithBoundingBoxes img_width img_height (allPredictions d)
               (imageWidth d) (imageHeight d) = ([], Some ''TypeError'') \<and>
           (\<forall>s. store_result d = Inr s \<longrightarrow>
              predictions_to_draw s = allPredictions d \<and>
              draw_result img_width img_height s = ([], Some ''TypeError''))"
proof -
  from detect_200_body [OF assms] obtain mime b c1 n1 r2 p where
    r2: "model2_reply rx = Json r2" and fp: "first_prediction r2 = Some p" and
    bd: "body (fst (detect e rx ip hs w)) = Result_json (assemble rx mime b c1 n1 r2 p)"
    by blast
  let ?d = "assemble rx mime b c1 n1 r2 p"
  from fp obtain ps where ps: "predictions r2 = Some (p # ps)"
    by (auto simp: first_prediction_def split: option.splits list.splits)
  have all: "allPredictions ?d =
      map (\<lambda>q. \<lparr>view_class = pred_class q,
                 view_confidence = percent (pred_confidence q),
                 view_boundingBox = None\<rparr>) (p # ps)"
    using ps by (simp add: assemble_def Let_def to_view_def)
  have none: "\<forall>v \<in> set (allPredictions ?d). view_boundingBox v = None"
    unfolding all by auto
  have box: "m2_boundingBox (model2 ?d) =
      \<lparr>box_x = pred_x p, box_y = pred_y p, box_width = pred_width p,
       box_height = pred_height p\<rparr>"
    by (simp add: assemble_def Let_def)
  have draw: "drawImageWithBoundingBoxes img_width img_height (allPredictions ?d)
      (imageWidth ?d) (imageHeight ?d) = ([], Some ''TypeError'')"
    unfolding drawImageWithBoundingBoxes_def all by (simp add: Let_def)
  have stored: "\<forall>s. store_result ?d = Inr s \<longrightarrow>
      predictions_to_draw s = allPredictions ?d \<and>
      draw_result img_width img_height s = ([], Some ''TypeError'')"
  proof (intro allI impI)
    fix s assume s: "store_result ?d = Inr s"
    then have sa: "st_allPredictions s = Some (allPredictions ?d)"
      by (auto simp: store_result_def split: option.splits)
    then have td: "predictions_to_draw s = allPredictions ?d"
      by (simp add: predictions_to_draw_def)
    have "draw_result img_width img_height s = ([], Some ''TypeError'')"
      unfolding draw_result_def drawImageWithBoundingBoxes_def td all by (simp add: Let_def)
    with td show "predictions_to_draw s = allPredictions ?d \<and>
      draw_result img_width img_height s = ([], Some ''TypeError'')" by simp
  qed
  from bd r2 ps all none box draw stored show ?thesis by blast
qed

text \<open>
  The successful scenario of the specification: two entries without a box; the result is
  stored, and the drawing stops with a TypeError.
\<close>

theorem allPredictions_without_boxes_witness:
  "\<exists>d s. body (fst (detect example_env
            (example_reactions (listed [labelled ''calamansi'' (92 / 100)]) example_diseases)
            ''203.0.113.7'' [] example_world)) = Result_json d \<and>
        (\<forall>v \<in> set (allPredictions d). view_boundingBox v = None) \<and>
        store_result d = Inr s \<and>
        draw_result 1280 1280 s = ([], Some ''TypeError'')"
proof -
  let ?rx = "example_reactions (listed [labelled ''calamansi'' (92 / 100)]) example_diseases"
  have st: "status (fst (detect example_env ?rx ''203.0.113.7'' [] example_world)) = 200"
    by code_simp
  from allPredictions_without_boxes [OF st, of 1280 1280] obtain d where
    bd: "body (fst (detect example_env ?rx ''203.0.113.7'' [] example_world)) = Result_json d"
    and none: "\<forall>v \<in> set (allPredictions d). view_boundingBox v = None"
    and dr: "\<forall>s. store_result d = Inr s \<longrightarrow> predictions_to_draw s = allPredictions d \<and>
              draw_result 1280 1280 s = ([], Some ''TypeError'')"
    by blast
  have "m1_confidence (model1 (the (payload (body (fst (detect example_env ?rx
      ''203.0.113.7'' [] example_world)))))) = Some 92"
    "m2_confidence (model2 (the (payload (body (fst (detect example_env ?rx
      ''203.0.113.7'' [] example_world)))))) = Some 81"
    by code_simp+
  with bd have "m1_confidence (model1 d) = Some 92" "m2_confidence (model2 d) = Some 81"
    by simp_all
  then obtain s where s: "store_result d = Inr s" by (simp add: store_result_def)
  with dr have "draw_result 1280 1280 s = ([], Some ''TypeError'')" by blast
  with bd none s show ?thesis by blast
qed

end
